theory Spec2Isabelle
  imports Complex_Main "HOL-Library.Word" "HOL-Library.Monad_Syntax"
begin

section \<open>PPO agent models of \<open>python/ppo/models.py\<close>\<close>

text \<open>
  The module builds a TensorFlow graph. Two things are modelled here.

  \<^item> The control flow of the constructors and of \<open>create_agent_model\<close>: which model and
    which encoders are created, with which sizes, and which exception is raised, by the
    module itself or by TensorFlow when it refuses a layer. Python exceptions are values
    of the type \<open>error\<close>; a function that can raise returns \<open>error + 'a\<close>.
  \<^item> The values the tensors of the graph take when it is run on a feed. Numbers are
    real numbers: rounding of 32 bit floating point numbers is not modelled. An
    evaluation that has no real value (operands whose shapes do not broadcast, a
    division by zero, the mean of no elements) is \<open>None\<close>.
\<close>

subsection \<open>Python values\<close>

datatype error =
    IndexError
  | KeyError string
  | ValueError
  | UnityEnvironmentException string
  | Exception string

definition r_bind :: "error + 'a \<Rightarrow> ('a \<Rightarrow> error + 'b) \<Rightarrow> error + 'b" where
  "r_bind r f = (case r of Inl e \<Rightarrow> Inl e | Inr v \<Rightarrow> f v)"

text \<open>\<open>xs[0]\<close> on a Python list and \<open>d[k]\<close> on a Python dict.\<close>

definition getitem_first :: "'a list \<Rightarrow> error + 'a" where
  "getitem_first xs = (case xs of [] \<Rightarrow> Inl IndexError | x # _ \<Rightarrow> Inr x)"

definition getitem_dict :: "(string \<rightharpoonup> 'a) \<Rightarrow> string \<Rightarrow> error + 'a" where
  "getitem_dict d k = (case d k of None \<Rightarrow> Inl (KeyError k) | Some v \<Rightarrow> Inr v)"

text \<open>The brain parameters of the environment, and the environment itself, as far as
  the module reads them.\<close>

record brain =
  action_space_type :: string
  number_observations :: int
  state_space_size :: int
  state_space_type :: string
  action_space_size :: int
  camera_resolutions :: "(string \<rightharpoonup> int) list"

record unity_environment =
  brain_names :: "string list"
  brains :: "string \<rightharpoonup> brain"

subsection \<open>What TensorFlow refuses when the graph is built\<close>

text \<open>The constructors call TensorFlow, which raises \<open>ValueError\<close> for a graph it
  cannot build: a placeholder with a negative dimension, a dense layer with a
  non-positive number of units, and a convolution whose input is smaller than its
  kernel. Every \<open>conv2d\<close> of the module has a 3 by 3 kernel, stride 2 and no padding:
  along an axis of \<open>n \<ge> 3\<close> entries it leaves \<open>(n - 3) div 2 + 1\<close>.\<close>

definition placeholder_dim :: "int \<Rightarrow> error + int" where
  "placeholder_dim d = (if d < 0 then Inl ValueError else Inr d)"

definition dense_units :: "int \<Rightarrow> error + int" where
  "dense_units units = (if units \<le> 0 then Inl ValueError else Inr units)"

definition conv2d_size :: "int \<Rightarrow> error + int" where
  "conv2d_size n = (if n < 3 then Inl ValueError else Inr ((n - 3) div 2 + 1))"

subsection \<open>Encoders\<close>

text \<open>An encoder is described by the arguments it was created with: the shape of its
  input placeholder and the number of units of its dense layers. The visual encoder
  has the placeholder, two convolutions, and after the flattening one dense layer;
  the continuous state encoder a placeholder and two dense layers; the discrete state
  encoder a one-hot encoding and one dense layer.\<close>

record visual_encoder =
  o_size_h :: int
  o_size_w :: int
  visual_units :: int

datatype state_encoder =
    ContinuousStateEncoder (state_size: int) (state_units: int)
  | DiscreteStateEncoder (state_size: int) (state_units: int)

definition create_visual_encoder :: "int \<Rightarrow> int \<Rightarrow> int \<Rightarrow> error + visual_encoder" where
  "create_visual_encoder h w h_size =
     r_bind (placeholder_dim h) (\<lambda>_.
     r_bind (placeholder_dim w) (\<lambda>_.
     r_bind (conv2d_size h) (\<lambda>conv1_h.
     r_bind (conv2d_size w) (\<lambda>conv1_w.
     r_bind (conv2d_size conv1_h) (\<lambda>conv2_h.
     r_bind (conv2d_size conv1_w) (\<lambda>conv2_w.
     r_bind (dense_units h_size) (\<lambda>units.
     Inr \<lparr>o_size_h = h, o_size_w = w, visual_units = units\<rparr>)))))))"

definition create_continuous_state_encoder :: "int \<Rightarrow> int \<Rightarrow> error + state_encoder" where
  "create_continuous_state_encoder s_size h_size =
     r_bind (placeholder_dim s_size) (\<lambda>_.
     r_bind (dense_units h_size) (\<lambda>_.
     r_bind (dense_units h_size) (\<lambda>units.
     Inr (ContinuousStateEncoder s_size units))))"

definition create_discrete_state_encoder :: "int \<Rightarrow> int \<Rightarrow> error + state_encoder" where
  "create_discrete_state_encoder s_size h_size =
     r_bind (placeholder_dim s_size) (\<lambda>_.
     r_bind (dense_units h_size) (\<lambda>units.
     Inr (DiscreteStateEncoder s_size units)))"

subsection \<open>The optimizer's hyper-parameters and step counter\<close>

text \<open>What \<open>create_ppo_optimizer\<close> is called with besides tensors. The counter
  \<open>global_step\<close> is a 32 bit signed integer variable that starts at 0.\<close>

record ppo_optimizer =
  opt_beta :: real
  opt_epsilon :: real
  opt_lr :: real
  opt_max_step :: real
  global_step :: "32 word"

definition ppo_optimizer_init :: "real \<Rightarrow> real \<Rightarrow> real \<Rightarrow> real \<Rightarrow> ppo_optimizer" where
  "ppo_optimizer_init beta epsilon lr max_step =
     \<lparr>opt_beta = beta, opt_epsilon = epsilon, opt_lr = lr, opt_max_step = max_step,
      global_step = 0\<rparr>"

definition increment_step :: "ppo_optimizer \<Rightarrow> ppo_optimizer" where
  "increment_step opt = opt\<lparr>global_step := global_step opt + 1\<rparr>"

subsection \<open>The two models\<close>

record continuous_control_model =
  c_s_size :: int
  c_a_size :: int
  c_h_size :: int
  c_optimizer :: ppo_optimizer

text \<open>The constructor of the continuous model creates the placeholder of the state
  (\<open>s_size\<close> columns), the dense layers of \<open>h_size\<close> units and the dense layer of
  \<open>a_size\<close> units for \<open>mu\<close>. It has no parameter \<open>beta\<close>: it passes the constant 0.0 to
  \<open>create_ppo_optimizer\<close>.\<close>

definition ContinuousControlModel ::
  "real \<Rightarrow> brain \<Rightarrow> int \<Rightarrow> real \<Rightarrow> real \<Rightarrow> error + continuous_control_model" where
  "ContinuousControlModel lr b h_size epsilon max_step =
     (let s_size = state_space_size b; a_size = action_space_size b in
      r_bind (placeholder_dim s_size) (\<lambda>_.
      r_bind (dense_units h_size) (\<lambda>_.
      r_bind (dense_units a_size) (\<lambda>_.
      Inr \<lparr>c_s_size = s_size, c_a_size = a_size, c_h_size = h_size,
           c_optimizer = ppo_optimizer_init 0 epsilon lr max_step\<rparr>))))"

datatype hidden_layer = HiddenVisual | HiddenState | HiddenConcat

record discrete_control_model =
  hidden_visual :: "visual_encoder option"
  hidden_state :: "state_encoder option"
  hidden :: hidden_layer
  d_a_size :: int
  d_optimizer :: ppo_optimizer

text \<open>The constructor of the discrete model, in three parts: \<open>visual_part\<close> is its
  first \<open>if\<close>, \<open>state_part\<close> its second, and \<open>DiscreteControlModel\<close> runs them and
  goes on with the remaining statements: the check that there is an encoder, and the
  dense layer of \<open>a_size\<close> units for the policy.

  The first statement of the constructor: with camera observations, the local
  \<open>h_size\<close> and \<open>w_size\<close> are both bound to \<open>camera_resolutions[0]['height']\<close> (the
  subscriptions are evaluated twice, left to right) and the visual encoder is created
  from the new \<open>h_size\<close>. The result is the pair of \<open>h_size\<close> and \<open>hidden_visual\<close>
  after the statement.\<close>

definition visual_part :: "brain \<Rightarrow> int \<Rightarrow> error + (int \<times> visual_encoder option)" where
  "visual_part b h_size =
     (if number_observations b > 0 then
        r_bind (getitem_first (camera_resolutions b)) (\<lambda>c0.
        r_bind (getitem_dict c0 ''height'') (\<lambda>h_size.
        r_bind (getitem_first (camera_resolutions b)) (\<lambda>c0'.
        r_bind (getitem_dict c0' ''height'') (\<lambda>w_size.
        r_bind (create_visual_encoder h_size w_size h_size) (\<lambda>encoder.
        Inr (h_size, Some encoder))))))
      else Inr (h_size, None))"

definition state_part :: "brain \<Rightarrow> int \<Rightarrow> error + state_encoder option" where
  "state_part b h_size =
     (if state_space_size b > 0 then
        (let s_size = state_space_size b in
         if state_space_type b = ''continuous''
         then r_bind (create_continuous_state_encoder s_size h_size) (\<lambda>e. Inr (Some e))
         else r_bind (create_discrete_state_encoder s_size h_size) (\<lambda>e. Inr (Some e)))
      else Inr None)"

definition no_valid_network :: string where
  "no_valid_network =
     ''No valid network configuration possible. There are no states or observations in this brain''"

definition DiscreteControlModel ::
  "real \<Rightarrow> brain \<Rightarrow> int \<Rightarrow> real \<Rightarrow> real \<Rightarrow> real \<Rightarrow> error + discrete_control_model" where
  "DiscreteControlModel lr b h_size epsilon beta max_step =
     r_bind (visual_part b h_size) (\<lambda>(h_size, hv).
     r_bind (state_part b h_size) (\<lambda>hs.
       if hv = None \<and> hs = None then Inl (Exception no_valid_network)
       else r_bind (dense_units (action_space_size b)) (\<lambda>a_size.
            Inr \<lparr>hidden_visual = hv, hidden_state = hs,
                 hidden = (if hv \<noteq> None \<and> hs = None then HiddenVisual
                           else if hv = None \<and> hs \<noteq> None then HiddenState
                           else HiddenConcat),
                 d_a_size = a_size,
                 d_optimizer = ppo_optimizer_init beta epsilon lr max_step\<rparr>)))"

subsection \<open>\<open>create_agent_model\<close>\<close>

datatype model = Continuous continuous_control_model | Discrete discrete_control_model

definition no_continuous_camera :: string where
  "no_continuous_camera =
     ''There is currently no PPO model which supports both a continuous action space and camera observations.''"

text \<open>The result \<open>Inr None\<close> is Python's \<open>None\<close>: the function body ends without a
  \<open>return\<close> when neither \<open>if\<close> applies. (The first \<open>if\<close> returns or raises on each of
  its paths, so the second one is reached only when the first does not apply.)\<close>

definition create_agent_model ::
  "unity_environment \<Rightarrow> real \<Rightarrow> int \<Rightarrow> real \<Rightarrow> real \<Rightarrow> real \<Rightarrow> error + model option" where
  "create_agent_model env lr h_size epsilon beta max_step =
     r_bind (getitem_first (brain_names env)) (\<lambda>brain_name.
     r_bind (getitem_dict (brains env) brain_name) (\<lambda>b.
       if action_space_type b = ''continuous'' then
         (if number_observations b = 0
          then r_bind (ContinuousControlModel lr b h_size epsilon max_step)
                 (\<lambda>m. Inr (Some (Continuous m)))
          else Inl (UnityEnvironmentException no_continuous_camera))
       else if action_space_type b = ''discrete'' then
         r_bind (DiscreteControlModel lr b h_size epsilon beta max_step)
           (\<lambda>m. Inr (Some (Discrete m)))
       else Inr None))"

section \<open>The values of the tensors\<close>

subsection \<open>Tensors\<close>

text \<open>A tensor of rank 0, 1 or 2. A binary operation broadcasts its operands as NumPy
  and TensorFlow do: the shapes are aligned at the last axis, a missing axis counts as
  an axis of length 1, and along an axis the lengths must be equal or one of them 1.
  \<open>rows\<close> is the view of a tensor as a list of rows, \<open>of_rows\<close> goes back to a given
  rank.\<close>

datatype tensor = Scalar real | Vec "real list" | Mat "real list list"

fun rows :: "tensor \<Rightarrow> real list list" where
  "rows (Scalar x) = [[x]]"
| "rows (Vec xs) = [xs]"
| "rows (Mat A) = A"

fun tensor_rank :: "tensor \<Rightarrow> nat" where
  "tensor_rank (Scalar x) = 0"
| "tensor_rank (Vec xs) = 1"
| "tensor_rank (Mat A) = 2"

fun of_rows :: "nat \<Rightarrow> real list list \<Rightarrow> tensor" where
  "of_rows 0 A = Scalar (hd (hd A))"
| "of_rows (Suc 0) A = Vec (hd A)"
| "of_rows (Suc (Suc n)) A = Mat A"

definition elements :: "tensor \<Rightarrow> real list" where
  "elements t = concat (rows t)"

fun tmap :: "(real \<Rightarrow> real) \<Rightarrow> tensor \<Rightarrow> tensor" where
  "tmap f (Scalar x) = Scalar (f x)"
| "tmap f (Vec xs) = Vec (map f xs)"
| "tmap f (Mat A) = Mat (map (map f) A)"

definition broadcast :: "('a \<Rightarrow> 'b \<Rightarrow> 'c) \<Rightarrow> 'a list \<Rightarrow> 'b list \<Rightarrow> 'c list option" where
  "broadcast f xs ys =
     (if length xs = length ys then Some (map2 f xs ys)
      else if length xs = 1 then Some (map (f (hd xs)) ys)
      else if length ys = 1 then Some (map (\<lambda>x. f x (hd ys)) xs)
      else None)"

definition broadcast_rows ::
  "(real \<Rightarrow> real \<Rightarrow> real) \<Rightarrow> real list list \<Rightarrow> real list list \<Rightarrow> real list list option" where
  "broadcast_rows f A B =
     (case broadcast (broadcast f) A B of None \<Rightarrow> None | Some R \<Rightarrow> those R)"

definition tbin :: "(real \<Rightarrow> real \<Rightarrow> real) \<Rightarrow> tensor \<Rightarrow> tensor \<Rightarrow> tensor option" where
  "tbin f s t =
     map_option (of_rows (max (tensor_rank s) (tensor_rank t)))
       (broadcast_rows f (rows s) (rows t))"

definition tadd :: "tensor \<Rightarrow> tensor \<Rightarrow> tensor option" where
  "tadd = tbin (+)"

definition tsub :: "tensor \<Rightarrow> tensor \<Rightarrow> tensor option" where
  "tsub = tbin (-)"

definition tmul :: "tensor \<Rightarrow> tensor \<Rightarrow> tensor option" where
  "tmul = tbin (*)"

definition tminimum :: "tensor \<Rightarrow> tensor \<Rightarrow> tensor option" where
  "tminimum = tbin min"

definition squared_difference :: "tensor \<Rightarrow> tensor \<Rightarrow> tensor option" where
  "squared_difference = tbin (\<lambda>x y. (x - y)\<^sup>2)"

text \<open>Division is \<open>None\<close> when a divisor is zero: the quotient is then infinite or
  not a number, and no real number stands for it.\<close>

definition tdiv :: "tensor \<Rightarrow> tensor \<Rightarrow> tensor option" where
  "tdiv s t = (if 0 \<in> set (elements t) then None else tbin (/) s t)"

text \<open>The mean of no elements is not a number. \<open>reduce_sum\<close> sums over all axes;
  \<open>reduce_sum_axis1\<close> is \<open>tf.reduce_sum(t, axis=1)\<close>, which TensorFlow refuses for a
  tensor of rank below 2.\<close>

definition reduce_mean :: "tensor \<Rightarrow> real option" where
  "reduce_mean t =
     (let xs = elements t in
      if xs = [] then None else Some (sum_list xs / real (length xs)))"

definition reduce_sum :: "tensor \<Rightarrow> tensor" where
  "reduce_sum t = Scalar (sum_list (elements t))"

fun reduce_sum_axis1 :: "tensor \<Rightarrow> tensor option" where
  "reduce_sum_axis1 (Mat A) = Some (Vec (map sum_list A))"
| "reduce_sum_axis1 t = None"

text \<open>A feed for a placeholder of shape \<open>[None, cols]\<close> is refused unless each of its
  rows has \<open>cols\<close> entries.\<close>

definition placeholder :: "nat \<Rightarrow> real list list \<Rightarrow> tensor option" where
  "placeholder cols M = (if list_all (\<lambda>r. length r = cols) M then Some (Mat M) else None)"

text \<open>\<open>tf.clip_by_value\<close> is \<open>maximum(minimum(t, clip_value_max), clip_value_min)\<close>
  on every entry.\<close>

definition clip :: "real \<Rightarrow> real \<Rightarrow> real \<Rightarrow> real" where
  "clip x clip_value_min clip_value_max = max (min x clip_value_max) clip_value_min"

definition clip_by_value :: "tensor \<Rightarrow> real \<Rightarrow> real \<Rightarrow> tensor" where
  "clip_by_value t clip_value_min clip_value_max =
     tmap (\<lambda>x. clip x clip_value_min clip_value_max) t"

text \<open>A node of the graph is a function of the quantities the optimizer differentiates
  by. \<open>tf.stop_gradient\<close> of a node has the value of the node at the current point
  (\<open>stop_gradient p node p = node p\<close>) and is constant as a function, so that its
  derivative is zero.\<close>

definition stop_gradient :: "'p \<Rightarrow> ('p \<Rightarrow> 'a) \<Rightarrow> 'p \<Rightarrow> 'a" where
  "stop_gradient current node = (\<lambda>p. node current)"

text \<open>\<open>tf.layers.dense\<close> without bias: the inputs times the kernel, then the activation.
  The kernel is a variable of shape \<open>[inputs, units]\<close>, given here by its entries.\<close>

definition dense ::
  "real list list \<Rightarrow> nat \<Rightarrow> (nat \<Rightarrow> nat \<Rightarrow> real) \<Rightarrow> (real \<Rightarrow> real) \<Rightarrow> real list list" where
  "dense inputs units weights activation =
     map (\<lambda>row. map (\<lambda>j. activation (\<Sum>k<length row. row ! k * weights k j)) [0..<units])
       inputs"

subsection \<open>The PPO objective\<close>

text \<open>\<open>tf.train.polynomial_decay\<close> without cycling: the step is cut off at
  \<open>decay_steps\<close>, and the rate is
  \<open>(learning_rate - end_learning_rate) * (1 - step / decay_steps) ^ power + end_learning_rate\<close>.
  With \<open>decay_steps = 0\<close> the quotient is not a number. The power function is \<open>tf_pow\<close>:
  \<open>pow(x, 1.0)\<close> is \<open>x\<close> for every \<open>x\<close>, and 1.0 is the only exponent the module uses.\<close>

definition tf_pow :: "real \<Rightarrow> real \<Rightarrow> real" where
  "tf_pow x y = (if y = 1 then x else x powr y)"

definition polynomial_decay :: "real \<Rightarrow> real \<Rightarrow> real \<Rightarrow> real \<Rightarrow> real \<Rightarrow> real option" where
  "polynomial_decay learning_rate step decay_steps end_learning_rate pwr =
     (if decay_steps = 0 then None
      else (let step' = min step decay_steps;
                p = step' / decay_steps
            in Some ((learning_rate - end_learning_rate) * tf_pow (1 - p) pwr
                       + end_learning_rate)))"

text \<open>The two placeholders of the optimizer. \<open>returns_holder\<close> has shape \<open>[None]\<close>;
  \<open>advantage\<close> has shape \<open>[None, 1]\<close>: a feed is a column, given here by its entries.\<close>

record ppo_feed =
  returns_holder :: "real list"
  advantage :: "real list"

definition column :: "real list \<Rightarrow> tensor" where
  "column xs = Mat (map (\<lambda>x. [x]) xs)"

record ppo_tensors =
  policy_loss :: "real option"
  value_loss :: "real option"
  loss :: "real option"
  learning_rate :: "real option"

definition create_ppo_optimizer ::
  "tensor \<Rightarrow> tensor \<Rightarrow> tensor \<Rightarrow> tensor \<Rightarrow> real \<Rightarrow> real \<Rightarrow> real \<Rightarrow> real \<Rightarrow>
   ppo_feed \<Rightarrow> 32 word \<Rightarrow> ppo_tensors" where
  "create_ppo_optimizer probs old_probs value entropy beta epsilon lr max_step feed step =
     (let r_theta = tdiv probs old_probs;
          p_opt_a = do { r \<leftarrow> r_theta; tmul r (column (advantage feed)) };
          p_opt_b = do { r \<leftarrow> r_theta;
                         tmul (clip_by_value r (1 - epsilon) (1 + epsilon))
                           (column (advantage feed)) };
          pl = do { a \<leftarrow> p_opt_a; b \<leftarrow> p_opt_b; m \<leftarrow> tminimum a b;
                    mean \<leftarrow> reduce_mean m; Some (- mean) };
          vl = do { v \<leftarrow> reduce_sum_axis1 value;
                    d \<leftarrow> squared_difference (Vec (returns_holder feed)) v;
                    reduce_mean d }
      in \<lparr>policy_loss = pl,
          value_loss = vl,
          loss = do { p \<leftarrow> pl; v \<leftarrow> vl; e \<leftarrow> reduce_mean entropy;
                      Some (p + v - beta * e) },
          learning_rate =
            polynomial_decay lr (real_of_int (sint step)) max_step (1 / 10 ^ 10) 1\<rparr>)"

text \<open>The optimizer nodes of a model, from the hyper-parameters the model was built
  with and the current value of its step counter.\<close>

definition run_optimizer ::
  "ppo_optimizer \<Rightarrow> tensor \<Rightarrow> tensor \<Rightarrow> tensor \<Rightarrow> tensor \<Rightarrow> ppo_feed \<Rightarrow> ppo_tensors" where
  "run_optimizer opt probs old_probs value entropy feed =
     create_ppo_optimizer probs old_probs value entropy
       (opt_beta opt) (opt_epsilon opt) (opt_lr opt) (opt_max_step opt) feed (global_step opt)"

subsection \<open>The tensors of the continuous control model\<close>

text \<open>The trainable variables of the model are the kernels of its dense layers and
  \<open>log_sigma_sq\<close>, of shape \<open>[a_size]\<close>. The policy and value networks are dense layers
  on the fed state: \<open>continuous_layers\<close> computes their outputs \<open>mu\<close> (one row of
  \<open>a_size\<close> entries per state of the batch) and \<open>value\<close> (one entry per state), which
  make a \<open>continuous_net\<close> with the value of \<open>log_sigma_sq\<close>. The other nodes are
  functions of a \<open>continuous_net\<close>, through which every trainable variable enters them:
  \<open>self.output\<close> is \<open>continuous_output\<close>, \<open>self.probs\<close> is \<open>continuous_probs\<close> and
  \<open>self.entropy\<close> is \<open>continuous_entropy\<close>; \<open>continuous_run\<close> collects them with the
  optimizer nodes.\<close>

record continuous_net =
  mu :: "real list list"
  log_sigma_sq :: "real list"
  c_value :: "real list list"

record continuous_variables =
  policy_kernel_1 :: "nat \<Rightarrow> nat \<Rightarrow> real"
  policy_kernel_2 :: "nat \<Rightarrow> nat \<Rightarrow> real"
  mu_kernel :: "nat \<Rightarrow> nat \<Rightarrow> real"
  value_kernel_1 :: "nat \<Rightarrow> nat \<Rightarrow> real"
  value_kernel_2 :: "nat \<Rightarrow> nat \<Rightarrow> real"
  value_kernel :: "nat \<Rightarrow> nat \<Rightarrow> real"
  log_sigma_sq_variable :: "nat \<Rightarrow> real"

definition continuous_layers ::
  "continuous_control_model \<Rightarrow> continuous_variables \<Rightarrow> real list list \<Rightarrow> continuous_net option"
  where
  "continuous_layers m vars state =
     do { state_in \<leftarrow> placeholder (nat (c_s_size m)) state;
          (let h_size = nat (c_h_size m);
               a_size = nat (c_a_size m);
               hidden_policy = dense (rows state_in) h_size (policy_kernel_1 vars) tanh;
               hidden_value = dense (rows state_in) h_size (value_kernel_1 vars) tanh;
               hidden_policy_2 = dense hidden_policy h_size (policy_kernel_2 vars) tanh;
               hidden_value_2 = dense hidden_value h_size (value_kernel_2 vars) tanh
           in Some \<lparr>mu = dense hidden_policy_2 a_size (mu_kernel vars) (\<lambda>x. x),
                    log_sigma_sq = map (log_sigma_sq_variable vars) [0..<a_size],
                    c_value = dense hidden_value_2 1 (value_kernel vars) (\<lambda>x. x)\<rparr>) }"

record continuous_feed =
  c_epsilon :: "real list list"
  c_old_probs :: "real list list"
  c_ppo_feed :: ppo_feed

definition sigma_sq :: "continuous_net \<Rightarrow> tensor" where
  "sigma_sq net = tmap exp (Vec (log_sigma_sq net))"

definition continuous_output :: "nat \<Rightarrow> continuous_net \<Rightarrow> continuous_feed \<Rightarrow> tensor option" where
  "continuous_output a_size net feed =
     do { eps \<leftarrow> placeholder a_size (c_epsilon feed);
          noise \<leftarrow> tmul (tmap sqrt (sigma_sq net)) eps;
          tadd (Mat (mu net)) noise }"

text \<open>\<open>continuous_probs_at a_size current feed\<close> is the node \<open>self.probs\<close> as a function
  of the net, at the current net \<open>current\<close>; its value is \<open>continuous_probs\<close>.\<close>

definition continuous_probs_at ::
  "nat \<Rightarrow> continuous_net \<Rightarrow> continuous_feed \<Rightarrow> continuous_net \<Rightarrow> tensor option" where
  "continuous_probs_at a_size current feed net =
     do { out \<leftarrow> stop_gradient current (\<lambda>p. continuous_output a_size p feed) net;
          d \<leftarrow> tsub out (Mat (mu net));
          a \<leftarrow> map_option (tmap exp)
                 (tdiv (tmap (\<lambda>x. -1 * x\<^sup>2) d) (tmap (\<lambda>s. 2 * s) (sigma_sq net)));
          b \<leftarrow> tdiv (Scalar 1) (tmap sqrt (tmap (\<lambda>s. 2 * s * pi) (sigma_sq net)));
          tmul a b }"

definition continuous_probs :: "nat \<Rightarrow> continuous_net \<Rightarrow> continuous_feed \<Rightarrow> tensor option" where
  "continuous_probs a_size net feed = continuous_probs_at a_size net feed net"

definition continuous_entropy :: "continuous_net \<Rightarrow> tensor" where
  "continuous_entropy net =
     reduce_sum (tmap (\<lambda>x. 0.5 * ln x) (tmap (\<lambda>s. 2 * pi * exp 1 * s) (sigma_sq net)))"

record continuous_tensors =
  c_output :: "tensor option"
  c_probs :: "tensor option"
  c_entropy :: tensor
  c_optimizer_tensors :: "ppo_tensors option"

definition continuous_run ::
  "continuous_control_model \<Rightarrow> continuous_net \<Rightarrow> continuous_feed \<Rightarrow> continuous_tensors" where
  "continuous_run m net feed =
     (let a_size = nat (c_a_size m) in
      \<lparr>c_output = continuous_output a_size net feed,
       c_probs = continuous_probs a_size net feed,
       c_entropy = continuous_entropy net,
       c_optimizer_tensors =
         do { p \<leftarrow> continuous_probs a_size net feed;
              old \<leftarrow> placeholder a_size (c_old_probs feed);
              Some (run_optimizer (c_optimizer m) p old (Mat (c_value net))
                      (continuous_entropy net) (c_ppo_feed feed)) }\<rparr>)"

subsection \<open>The tensors of the discrete control model\<close>

text \<open>The logits \<open>policy\<close> (one row of \<open>a_size\<close> entries per state of the batch) and
  \<open>value\<close> are taken as given: they are the outputs of the dense layers on the encoders.
  An action index outside \<open>0..<num_classes\<close> is encoded as a row of zeros, as
  \<open>tf.one_hot\<close> does.\<close>

record discrete_net =
  policy :: "real list list"
  d_value :: "real list list"

record discrete_feed =
  action_holder :: "int list"
  d_old_probs :: "real list list"
  d_ppo_feed :: ppo_feed

definition softmax :: "real list list \<Rightarrow> tensor" where
  "softmax logits =
     Mat (map (\<lambda>row. map (\<lambda>x. exp x / sum_list (map exp row)) row) logits)"

definition one_hot_encoding :: "int list \<Rightarrow> nat \<Rightarrow> tensor" where
  "one_hot_encoding labels num_classes =
     Mat (map (\<lambda>l. map (\<lambda>k. if int k = l then 1 else 0) [0..<num_classes]) labels)"

definition discrete_entropy :: "tensor \<Rightarrow> tensor option" where
  "discrete_entropy p =
     do { s \<leftarrow> reduce_sum_axis1 (tmap (\<lambda>x. x * ln (x + 1 / 10 ^ 10)) p);
          Some (tmap uminus s) }"

definition responsible :: "tensor \<Rightarrow> tensor \<Rightarrow> tensor option" where
  "responsible p selected_actions =
     do { q \<leftarrow> tmul p selected_actions; reduce_sum_axis1 q }"

record discrete_tensors =
  d_probs :: tensor
  d_entropy :: "tensor option"
  responsible_probs :: "tensor option"
  old_responsible_probs :: "tensor option"
  d_optimizer_tensors :: "ppo_tensors option"

definition discrete_run ::
  "discrete_control_model \<Rightarrow> discrete_net \<Rightarrow> discrete_feed \<Rightarrow> discrete_tensors" where
  "discrete_run m net feed =
     (let a_size = nat (d_a_size m);
          p = softmax (policy net);
          entropy = discrete_entropy p;
          selected_actions = one_hot_encoding (action_holder feed) a_size;
          rp = responsible p selected_actions;
          orp = do { old \<leftarrow> placeholder a_size (d_old_probs feed);
                     responsible old selected_actions }
      in \<lparr>d_probs = p, d_entropy = entropy,
          responsible_probs = rp, old_responsible_probs = orp,
          d_optimizer_tensors =
            do { r \<leftarrow> rp; r' \<leftarrow> orp; e \<leftarrow> entropy;
                 Some (run_optimizer (d_optimizer m) r r' (Mat (d_value net)) e
                         (d_ppo_feed feed)) }\<rparr>)"

subsection \<open>Tables\<close>

text \<open>The matrix of \<open>n\<close> rows and \<open>a\<close> columns whose entry in row \<open>i\<close> and column \<open>j\<close>
  is \<open>g i j\<close>. The results below are stated with it.\<close>

definition table :: "nat \<Rightarrow> nat \<Rightarrow> (nat \<Rightarrow> nat \<Rightarrow> real) \<Rightarrow> real list list" where
  "table n a g = map (\<lambda>i. map (g i) [0..<a]) [0..<n]"

subsection \<open>Example inputs\<close>

definition example_brain :: brain where
  "example_brain =
     \<lparr>action_space_type = ''discrete'', number_observations = 1, state_space_size = 3,
      state_space_type = ''continuous'', action_space_size = 2,
      camera_resolutions = [[''height'' \<mapsto> 84, ''width'' \<mapsto> 64]]\<rparr>"

definition continuous_brain :: "int \<Rightarrow> brain" where
  "continuous_brain n =
     \<lparr>action_space_type = ''continuous'', number_observations = n, state_space_size = 8,
      state_space_type = ''continuous'', action_space_size = 2,
      camera_resolutions = []\<rparr>"

definition hybrid_brain :: brain where
  "hybrid_brain =
     \<lparr>action_space_type = ''hybrid'', number_observations = 0, state_space_size = 8,
      state_space_type = ''continuous'', action_space_size = 2,
      camera_resolutions = []\<rparr>"

definition empty_discrete_brain :: brain where
  "empty_discrete_brain =
     \<lparr>action_space_type = ''discrete'', number_observations = 0, state_space_size = 0,
      state_space_type = ''discrete'', action_space_size = 4,
      camera_resolutions = []\<rparr>"

definition small_camera_brain :: brain where
  "small_camera_brain =
     \<lparr>action_space_type = ''discrete'', number_observations = 1, state_space_size = 0,
      state_space_type = ''continuous'', action_space_size = 2,
      camera_resolutions = [[''height'' \<mapsto> 4, ''width'' \<mapsto> 4]]\<rparr>"

definition single_brain_env :: "brain \<Rightarrow> unity_environment" where
  "single_brain_env b = \<lparr>brain_names = [''Brain''], brains = [''Brain'' \<mapsto> b]\<rparr>"


definition example_ppo_feed :: ppo_feed where
  "example_ppo_feed = \<lparr>returns_holder = [1], advantage = [1]\<rparr>"

definition example_discrete_model :: discrete_control_model where
  "example_discrete_model =
     \<lparr>hidden_visual = None, hidden_state = Some (DiscreteStateEncoder 3 128),
      hidden = HiddenState, d_a_size = 2,
      d_optimizer = ppo_optimizer_init (1/1000) (1/5) (1/10000) 5000000\<rparr>"

definition example_discrete_net :: discrete_net where
  "example_discrete_net = \<lparr>policy = [[0, 0], [0, 0]], d_value = [[0], [0]]\<rparr>"

definition example_discrete_feed :: discrete_feed where
  "example_discrete_feed =
     \<lparr>action_holder = [0, 0], d_old_probs = [[1/2, 1/2], [1/4, 3/4]],
      d_ppo_feed = \<lparr>returns_holder = [0, 0], advantage = [1, -1]\<rparr>\<rparr>"


definition small_continuous_brain :: brain where
  "small_continuous_brain =
     \<lparr>action_space_type = ''continuous'', number_observations = 0, state_space_size = 1,
      state_space_type = ''continuous'', action_space_size = 2,
      camera_resolutions = []\<rparr>"

definition small_continuous_model :: continuous_control_model where
  "small_continuous_model =
     \<lparr>c_s_size = 1, c_a_size = 2, c_h_size = 1,
      c_optimizer = ppo_optimizer_init 0 (1/5) (1/10000) 5000000\<rparr>"

definition example_continuous_variables :: continuous_variables where
  "example_continuous_variables =
     \<lparr>policy_kernel_1 = (\<lambda>k j. 1), policy_kernel_2 = (\<lambda>k j. 1), mu_kernel = (\<lambda>k j. 0),
      value_kernel_1 = (\<lambda>k j. 1), value_kernel_2 = (\<lambda>k j. 1), value_kernel = (\<lambda>k j. 0),
      log_sigma_sq_variable = (\<lambda>j. 0)\<rparr>"


definition example_continuous_feed :: continuous_feed where
  "example_continuous_feed =
     \<lparr>c_epsilon = [[1, 2]], c_old_probs = [[1, 1]],
      c_ppo_feed = \<lparr>returns_holder = [0], advantage = [0]\<rparr>\<rparr>"

section \<open>Properties of the construction\<close>

lemma r_bind_simps:
  "r_bind (Inl e) f = Inl e" "r_bind (Inr v) f = f v"
  by (simp_all add: r_bind_def)

lemma getitem_first_simps:
  "getitem_first [] = Inl IndexError" "getitem_first (x # xs) = Inr x"
  by (simp_all add: getitem_first_def)

lemma conv2d_size_twice:
  assumes "7 \<le> n"
  shows "\<exists>k l. conv2d_size n = Inr k \<and> conv2d_size k = Inr l"
proof -
  have "\<not> (n - 3) div 2 + 1 < 3"
    using assms by presburger
  then show ?thesis
    using assms by (simp add: conv2d_size_def)
qed

lemma create_visual_encoder_built:
  assumes "7 \<le> h" and "7 \<le> w" and "0 < units"
  shows "create_visual_encoder h w units = Inr \<lparr>o_size_h = h, o_size_w = w, visual_units = units\<rparr>"
proof -
  obtain h1 h2 where h: "conv2d_size h = Inr h1" "conv2d_size h1 = Inr h2"
    using conv2d_size_twice[OF assms(1)] by blast
  obtain w1 w2 where w: "conv2d_size w = Inr w1" "conv2d_size w1 = Inr w2"
    using conv2d_size_twice[OF assms(2)] by blast
  show ?thesis
    using assms
    by (simp add: create_visual_encoder_def h w r_bind_simps placeholder_dim_def dense_units_def)
qed

lemma conv2d_size_small:
  assumes "n < 7" and "conv2d_size n = Inr k"
  shows "conv2d_size k = Inl ValueError"
proof -
  have k: "k = (n - 3) div 2 + 1" and "3 \<le> n"
    using assms(2) by (simp_all add: conv2d_size_def split: if_splits)
  then have "k < 3"
    using assms(1) by presburger
  then show ?thesis
    by (simp add: conv2d_size_def)
qed

lemma create_visual_encoder_refused:
  assumes "h < 7"
  shows "create_visual_encoder h w units = Inl ValueError"
proof (cases "conv2d_size h")
  case (Inl e)
  then have "e = ValueError"
    by (simp add: conv2d_size_def split: if_splits)
  with Inl show ?thesis
    by (simp add: create_visual_encoder_def r_bind_def placeholder_dim_def conv2d_size_def
        split: sum.splits if_splits)
next
  case (Inr h1)
  from conv2d_size_small[OF assms Inr] Inr show ?thesis
    by (simp add: create_visual_encoder_def r_bind_def placeholder_dim_def conv2d_size_def
        split: sum.splits if_splits)
qed

lemma visual_part_height:
  assumes "0 < number_observations b" "camera_resolutions b = c0 # cs" "c0 ''height'' = Some h"
  shows "visual_part b h_size
           = r_bind (create_visual_encoder h h h) (\<lambda>encoder. Inr (h, Some encoder))"
  using assms by (simp add: visual_part_def r_bind_simps getitem_first_simps getitem_dict_def)

lemma state_part_built:
  assumes "0 < h"
  shows "state_part b h =
           Inr (if 0 < state_space_size b
                then Some (if state_space_type b = ''continuous''
                           then ContinuousStateEncoder (state_space_size b) h
                           else DiscreteStateEncoder (state_space_size b) h)
                else None)"
  using assms
  by (simp add: state_part_def Let_def create_continuous_state_encoder_def
      create_discrete_state_encoder_def placeholder_dim_def dense_units_def r_bind_simps)

lemma create_agent_model_brain:
  assumes "brain_names env = name # rest" and "brains env name = Some b"
  shows "create_agent_model env lr h_size epsilon beta max_step =
     (if action_space_type b = ''continuous'' then
         (if number_observations b = 0
          then r_bind (ContinuousControlModel lr b h_size epsilon max_step)
                 (\<lambda>m. Inr (Some (Continuous m)))
          else Inl (UnityEnvironmentException no_continuous_camera))
       else if action_space_type b = ''discrete'' then
         r_bind (DiscreteControlModel lr b h_size epsilon beta max_step)
           (\<lambda>m. Inr (Some (Discrete m)))
       else Inr None)"
  using assms
  by (simp add: create_agent_model_def r_bind_simps getitem_first_simps getitem_dict_def)

lemma ContinuousControlModel_built:
  assumes "0 \<le> state_space_size b" and "0 < h_size" and "0 < action_space_size b"
  shows "ContinuousControlModel lr b h_size epsilon max_step =
           Inr \<lparr>c_s_size = state_space_size b, c_a_size = action_space_size b,
                c_h_size = h_size, c_optimizer = ppo_optimizer_init 0 epsilon lr max_step\<rparr>"
  using assms
  by (simp add: ContinuousControlModel_def Let_def placeholder_dim_def dense_units_def r_bind_simps)

lemma ContinuousControlModel_Inr:
  assumes "ContinuousControlModel lr b h_size epsilon max_step = Inr m"
  shows "m = \<lparr>c_s_size = state_space_size b, c_a_size = action_space_size b,
              c_h_size = h_size, c_optimizer = ppo_optimizer_init 0 epsilon lr max_step\<rparr>"
    and "0 \<le> state_space_size b" and "0 < h_size" and "0 < action_space_size b"
  using assms
  by (auto simp add: ContinuousControlModel_def Let_def placeholder_dim_def dense_units_def
      r_bind_def split: if_splits)

text \<open>
  Claim C3. In the discrete model with camera observations (\<open>number_observations > 0\<close>,
  and \<open>camera_resolutions[0]['height']\<close> exists and is \<open>h\<close>), the visual encoder is
  created with height \<open>h\<close>, width \<open>h\<close> and \<open>h\<close> dense units, and a state encoder created
  afterwards has \<open>h\<close> units too: the configured \<open>h_size\<close> is not used. The \<open>'width'\<close>
  entry is never read: the same model is built whatever that entry is (\<open>w\<close>) and whatever
  hidden size is configured (\<open>h_size'\<close>). The model is built when the two convolutions fit
  into the image (\<open>h \<ge> 7\<close>) and there is an action (\<open>action_space_size > 0\<close>); for a
  smaller image the constructor raises \<open>ValueError\<close> and builds no encoder.
\<close>

theorem discrete_visual_sizes:
  assumes "0 < number_observations b"
    and "camera_resolutions b = c0 # cs"
    and "c0 ''height'' = Some h"
  shows "(7 \<le> h \<and> 0 < action_space_size b \<longrightarrow>
          (\<exists>m. DiscreteControlModel lr b h_size epsilon beta max_step = Inr m
             \<and> hidden_visual m = Some \<lparr>o_size_h = h, o_size_w = h, visual_units = h\<rparr>
             \<and> hidden_state m =
                 (if 0 < state_space_size b
                  then Some (if state_space_type b = ''continuous''
                             then ContinuousStateEncoder (state_space_size b) h
                             else DiscreteStateEncoder (state_space_size b) h)
                  else None)
             \<and> DiscreteControlModel lr (b\<lparr>camera_resolutions := c0(''width'' := w) # cs\<rparr>)
                   h_size' epsilon beta max_step = Inr m))
       \<and> (h < 7 \<longrightarrow>
            DiscreteControlModel lr b h_size epsilon beta max_step = Inl ValueError)"
proof (intro conjI impI)
  assume "7 \<le> h \<and> 0 < action_space_size b"
  then have h: "7 \<le> h" "0 < h" and a: "0 < action_space_size b"
    by simp_all
  let ?b' = "b\<lparr>camera_resolutions := c0(''width'' := w) # cs\<rparr>"
  let ?enc = "\<lparr>o_size_h = h, o_size_w = h, visual_units = h\<rparr>"
  have enc: "create_visual_encoder h h h = Inr ?enc"
    using h by (intro create_visual_encoder_built) simp_all
  have v: "visual_part b h_size = Inr (h, Some ?enc)"
    using visual_part_height[OF assms] by (simp add: enc r_bind_simps)
  have "visual_part ?b' h_size'
          = r_bind (create_visual_encoder h h h) (\<lambda>encoder. Inr (h, Some encoder))"
    using assms
    by (intro visual_part_height[where cs = cs and ?c0.0 = "c0(''width'' := w)"]) simp_all
  then have v': "visual_part ?b' h_size' = Inr (h, Some ?enc)"
    by (simp add: enc r_bind_simps)
  have s: "state_part ?b' h = state_part b h"
    by (simp add: state_part_def)
  show "\<exists>m. DiscreteControlModel lr b h_size epsilon beta max_step = Inr m
             \<and> hidden_visual m = Some ?enc
             \<and> hidden_state m =
                 (if 0 < state_space_size b
                  then Some (if state_space_type b = ''continuous''
                             then ContinuousStateEncoder (state_space_size b) h
                             else DiscreteStateEncoder (state_space_size b) h)
                  else None)
             \<and> DiscreteControlModel lr ?b' h_size' epsilon beta max_step = Inr m"
    unfolding DiscreteControlModel_def v v' s
    using a by (simp add: r_bind_simps state_part_built[OF h(2)] dense_units_def)
next
  assume "h < 7"
  then have "create_visual_encoder h h h = Inl ValueError"
    by (rule create_visual_encoder_refused)
  then have "visual_part b h_size = Inl ValueError"
    using visual_part_height[OF assms] by (simp add: r_bind_simps)
  then show "DiscreteControlModel lr b h_size epsilon beta max_step = Inl ValueError"
    by (simp add: DiscreteControlModel_def r_bind_simps)
qed

theorem discrete_visual_sizes_witness:
  "(\<exists>m. DiscreteControlModel (1/10000) example_brain 128 (1/5) (1/1000) 5000000 = Inr m
      \<and> hidden_visual m = Some \<lparr>o_size_h = 84, o_size_w = 84, visual_units = 84\<rparr>
      \<and> hidden_state m = Some (ContinuousStateEncoder 3 84))
   \<and> DiscreteControlModel (1/10000) small_camera_brain 128 (1/5) (1/1000) 5000000
       = Inl ValueError"
  using discrete_visual_sizes[of example_brain "[''height'' \<mapsto> 84, ''width'' \<mapsto> 64]" "[]" 84
      "1/10000" 128 "1/5" "1/1000" 5000000 None 128]
    discrete_visual_sizes[of small_camera_brain "[''height'' \<mapsto> 4, ''width'' \<mapsto> 4]" "[]" 4
      "1/10000" 128 "1/5" "1/1000" 5000000 None 128]
  by (auto simp add: example_brain_def small_camera_brain_def)

text \<open>
  Claim C6. When the first brain of the environment has a continuous action space,
  \<open>create_agent_model\<close> raises \<open>UnityEnvironmentException\<close> (and returns no model) if
  the brain has camera observations. If it has none, \<open>create_agent_model\<close> returns the
  continuous control model, for sizes TensorFlow builds the layers with (a positive
  state size, hidden size and action size).
\<close>

theorem continuous_selection:
  assumes "brain_names env = name # rest"
    and "brains env name = Some b"
    and "action_space_type b = ''continuous''"
  shows "(0 < number_observations b \<longrightarrow>
            create_agent_model env lr h_size epsilon beta max_step =
              Inl (UnityEnvironmentException no_continuous_camera))
       \<and> (number_observations b = 0 \<and> 0 < state_space_size b \<and> 0 < h_size
            \<and> 0 < action_space_size b \<longrightarrow>
            ContinuousControlModel lr b h_size epsilon max_step =
              Inr \<lparr>c_s_size = state_space_size b, c_a_size = action_space_size b,
                   c_h_size = h_size, c_optimizer = ppo_optimizer_init 0 epsilon lr max_step\<rparr>
            \<and> create_agent_model env lr h_size epsilon beta max_step =
              Inr (Some (Continuous
                \<lparr>c_s_size = state_space_size b, c_a_size = action_space_size b,
                 c_h_size = h_size,
                 c_optimizer = ppo_optimizer_init 0 epsilon lr max_step\<rparr>)))"
  using assms
  by (simp add: create_agent_model_brain ContinuousControlModel_built r_bind_simps)

theorem continuous_selection_witness:
  "create_agent_model (single_brain_env (continuous_brain 1)) (1/10000) 128 (1/5) (1/1000) 5000000
     = Inl (UnityEnvironmentException no_continuous_camera)
   \<and> create_agent_model (single_brain_env (continuous_brain 0)) (1/10000) 128 (1/5) (1/1000) 5000000
     = Inr (Some (Continuous
         \<lparr>c_s_size = 8, c_a_size = 2, c_h_size = 128,
          c_optimizer = \<lparr>opt_beta = 0, opt_epsilon = 1/5, opt_lr = 1/10000,
                         opt_max_step = 5000000, global_step = 0\<rparr>\<rparr>))"
  using continuous_selection[of "single_brain_env (continuous_brain 1)" "''Brain''" "[]"
      "continuous_brain 1" "1/10000" 128 "1/5" "1/1000" 5000000]
    continuous_selection[of "single_brain_env (continuous_brain 0)" "''Brain''" "[]"
      "continuous_brain 0" "1/10000" 128 "1/5" "1/1000" 5000000]
  by (simp add: single_brain_env_def continuous_brain_def ppo_optimizer_init_def)

text \<open>With a hidden size or an action size that is not positive, or a negative state
  size, the constructor of the continuous model raises \<open>ValueError\<close>.\<close>

lemma ContinuousControlModel_refused:
  assumes "state_space_size b < 0 \<or> h_size \<le> 0 \<or> action_space_size b \<le> 0"
  shows "ContinuousControlModel lr b h_size epsilon max_step = Inl ValueError"
  using assms
  by (auto simp add: ContinuousControlModel_def Let_def placeholder_dim_def dense_units_def
      r_bind_def)

text \<open>
  Claim C7 says that an action space type that is neither \<open>continuous\<close> nor \<open>discrete\<close>
  is answered with an error. The function raises nothing there: for the brain
  \<open>hybrid_brain\<close>, whose type is \<open>hybrid\<close>, it returns \<open>None\<close>.
\<close>

theorem unrecognized_action_space_returns_None:
  "create_agent_model (single_brain_env hybrid_brain) (1/10000) 128 (1/5) (1/1000) 5000000
     = Inr None"
  by (simp add: create_agent_model_def single_brain_env_def hybrid_brain_def r_bind_simps
      getitem_first_simps getitem_dict_def)

text \<open>The same for every such action space type.\<close>

lemma unrecognized_action_space_general:
  assumes "brain_names env = name # rest" and "brains env name = Some b"
    and "action_space_type b \<noteq> ''continuous''" and "action_space_type b \<noteq> ''discrete''"
  shows "create_agent_model env lr h_size epsilon beta max_step = Inr None"
  using assms by (simp add: create_agent_model_brain)

text \<open>
  Claim C8. For a brain with no state (\<open>state_space_size = 0\<close>) and no camera
  observation (\<open>number_observations = 0\<close>), the constructor of the discrete control model
  raises the exception "No valid network configuration possible ...", and so does
  \<open>create_agent_model\<close> for an environment whose first brain is this one and has a
  discrete action space.
\<close>

theorem discrete_without_inputs:
  assumes "state_space_size b = 0" and "number_observations b = 0"
  shows "DiscreteControlModel lr b h_size epsilon beta max_step = Inl (Exception no_valid_network)
       \<and> (\<forall>env name rest.
            brain_names env = name # rest \<and> brains env name = Some b
              \<and> action_space_type b = ''discrete'' \<longrightarrow>
            create_agent_model env lr h_size epsilon beta max_step
              = Inl (Exception no_valid_network))"
proof -
  have d: "DiscreteControlModel lr b h_size epsilon beta max_step
             = Inl (Exception no_valid_network)"
    using assms
    by (simp add: DiscreteControlModel_def visual_part_def state_part_def r_bind_simps)
  show ?thesis
    by (auto simp add: d create_agent_model_brain r_bind_simps)
qed

theorem discrete_without_inputs_witness:
  "DiscreteControlModel (1/10000) empty_discrete_brain 128 (1/5) (1/1000) 5000000
     = Inl (Exception no_valid_network)
   \<and> create_agent_model (single_brain_env empty_discrete_brain) (1/10000) 128 (1/5) (1/1000)
        5000000 = Inl (Exception no_valid_network)"
proof -
  have "state_space_size empty_discrete_brain = 0" "number_observations empty_discrete_brain = 0"
    by (simp_all add: empty_discrete_brain_def)
  from discrete_without_inputs[OF this, of "1/10000" 128 "1/5" "1/1000" 5000000]
  show ?thesis
    by (simp add: single_brain_env_def empty_discrete_brain_def)
qed

text \<open>For a continuous action space the parameter \<open>beta\<close> of \<open>create_agent_model\<close> has
  no effect.\<close>

lemma continuous_model_ignores_beta:
  assumes "brain_names env = name # rest" and "brains env name = Some b"
    and "action_space_type b = ''continuous''"
  shows "create_agent_model env lr h_size epsilon beta max_step
           = create_agent_model env lr h_size epsilon beta' max_step"
  using assms by (simp add: create_agent_model_brain)

section \<open>Broadcasting\<close>

lemma those_map_Some: "those (map (\<lambda>x. Some (g x)) xs) = Some (map g xs)"
  by (induction xs) simp_all

lemma broadcast_same:
  "length xs = length ys \<Longrightarrow> broadcast f xs ys = Some (map2 f xs ys)"
  by (simp add: broadcast_def)

lemma broadcast_single_right: "broadcast f xs [y] = Some (map (\<lambda>x. f x y) xs)"
proof (cases xs)
  case Nil
  then show ?thesis by (simp add: broadcast_def)
next
  case (Cons x xs')
  then show ?thesis by (cases xs') (simp_all add: broadcast_def)
qed

lemma broadcast_single_left: "broadcast f [x] ys = Some (map (f x) ys)"
proof (cases ys)
  case Nil
  then show ?thesis by (simp add: broadcast_def)
next
  case (Cons y ys')
  then show ?thesis by (cases ys') (simp_all add: broadcast_def)
qed

lemma length_table [simp]: "length (table n a g) = n"
  by (simp add: table_def)

lemma nth_table [simp]: "i < n \<Longrightarrow> table n a g ! i = map (g i) [0..<a]"
  by (simp add: table_def)

lemma matrix_eq_table:
  assumes "length M = n" and "\<forall>i<n. length (M ! i) = a"
  shows "M = table n a (\<lambda>i j. M ! i ! j)"
proof (rule nth_equalityI)
  show "length M = length (table n a (\<lambda>i j. M ! i ! j))"
    using assms by simp
next
  fix i assume "i < length M"
  then have i: "i < n" using assms by simp
  then have "length (M ! i) = a" using assms by simp
  then have "M ! i = map (\<lambda>j. M ! i ! j) [0..<a]"
    by (intro nth_equalityI) simp_all
  then show "M ! i = table n a (\<lambda>i j. M ! i ! j) ! i"
    using i by simp
qed

lemma tmap_table: "tmap f (Mat (table n a g)) = Mat (table n a (\<lambda>i j. f (g i j)))"
  by (simp add: table_def comp_def)

lemma broadcast_rows_same:
  "broadcast_rows f (table n a g) (table n a h) = Some (table n a (\<lambda>i j. f (g i j) (h i j)))"
proof -
  have "map2 (broadcast f) (table n a g) (table n a h)
          = map (\<lambda>i. Some (map (\<lambda>j. f (g i j) (h i j)) [0..<a])) [0..<n]"
    by (intro nth_equalityI) (simp_all add: broadcast_same zip_map1 zip_map2 comp_def table_def
        zip_same_conv_map)
  then show ?thesis
    by (simp add: broadcast_rows_def broadcast_same those_map_Some table_def)
qed

lemma broadcast_rows_column:
  assumes "length xs = n"
  shows "broadcast_rows f (table n a g) (map (\<lambda>x. [x]) xs)
           = Some (table n a (\<lambda>i j. f (g i j) (xs ! i)))"
proof -
  have "map2 (broadcast f) (table n a g) (map (\<lambda>x. [x]) xs)
          = map (\<lambda>i. Some (map (\<lambda>j. f (g i j) (xs ! i)) [0..<a])) [0..<n]"
    using assms by (intro nth_equalityI) (simp_all add: broadcast_single_right)
  then show ?thesis
    using assms by (simp add: broadcast_rows_def broadcast_same those_map_Some table_def)
qed

lemma broadcast_rows_vec_column:
  "broadcast_rows f [r] (map (\<lambda>x. [x]) xs)
     = Some (table (length xs) (length r) (\<lambda>i j. f (r ! j) (xs ! i)))"
proof -
  have row: "broadcast f r [x] = Some (map (\<lambda>j. f (r ! j) x) [0..<length r])" for x
    unfolding broadcast_single_right by simp (intro nth_equalityI, simp_all)
  have tab: "table (length xs) (length r) (\<lambda>i j. f (r ! j) (xs ! i))
               = map (\<lambda>x. map (\<lambda>j. f (r ! j) x) [0..<length r]) xs"
    by (intro nth_equalityI) simp_all
  have "broadcast (broadcast f) [r] (map (\<lambda>x. [x]) xs)
          = Some (map (\<lambda>x. Some (map (\<lambda>j. f (r ! j) x) [0..<length r])) xs)"
    unfolding broadcast_single_left by (simp add: row comp_def)
  then show ?thesis
    by (simp add: broadcast_rows_def those_map_Some tab)
qed

lemma broadcast_rows_mat_vec:
  assumes "length v = a"
  shows "broadcast_rows f (table n a g) [v] = Some (table n a (\<lambda>i j. f (g i j) (v ! j)))"
proof -
  have row: "broadcast f (map (g i) [0..<a]) v = Some (map (\<lambda>j. f (g i j) (v ! j)) [0..<a])" for i
    using assms by (simp add: broadcast_same) (intro nth_equalityI, simp_all)
  have "broadcast (broadcast f) (table n a g) [v]
          = Some (map (\<lambda>i. Some (map (\<lambda>j. f (g i j) (v ! j)) [0..<a])) [0..<n])"
    unfolding broadcast_single_right by (simp add: row table_def comp_def)
  then show ?thesis
    by (simp add: broadcast_rows_def those_map_Some table_def)
qed

lemma broadcast_rows_vec_mat:
  assumes "length v = a"
  shows "broadcast_rows f [v] (table n a g) = Some (table n a (\<lambda>i j. f (v ! j) (g i j)))"
proof -
  have row: "broadcast f v (map (g i) [0..<a]) = Some (map (\<lambda>j. f (v ! j) (g i j)) [0..<a])" for i
    using assms by (simp add: broadcast_same) (intro nth_equalityI, simp_all)
  have "broadcast (broadcast f) [v] (table n a g)
          = Some (map (\<lambda>i. Some (map (\<lambda>j. f (v ! j) (g i j)) [0..<a])) [0..<n])"
    unfolding broadcast_single_left by (simp add: row table_def comp_def)
  then show ?thesis
    by (simp add: broadcast_rows_def those_map_Some table_def)
qed

lemma tbin_Mat_Mat:
  "tbin f (Mat (table n a g)) (Mat (table n a h)) = Some (Mat (table n a (\<lambda>i j. f (g i j) (h i j))))"
  by (simp add: tbin_def broadcast_rows_same numeral_2_eq_2)

lemma tbin_Mat_column:
  "length xs = n \<Longrightarrow>
   tbin f (Mat (table n a g)) (column xs) = Some (Mat (table n a (\<lambda>i j. f (g i j) (xs ! i))))"
  by (simp add: tbin_def column_def broadcast_rows_column numeral_2_eq_2)

lemma tbin_Vec_column:
  "tbin f (Vec r) (column xs)
     = Some (Mat (table (length xs) (length r) (\<lambda>i j. f (r ! j) (xs ! i))))"
  by (simp add: tbin_def column_def broadcast_rows_vec_column numeral_2_eq_2)

lemma tbin_Mat_Vec:
  "length v = a \<Longrightarrow>
   tbin f (Mat (table n a g)) (Vec v) = Some (Mat (table n a (\<lambda>i j. f (g i j) (v ! j))))"
  by (simp add: tbin_def broadcast_rows_mat_vec numeral_2_eq_2)

lemma tbin_Vec_Mat:
  "length v = a \<Longrightarrow>
   tbin f (Vec v) (Mat (table n a g)) = Some (Mat (table n a (\<lambda>i j. f (v ! j) (g i j))))"
  by (simp add: tbin_def broadcast_rows_vec_mat numeral_2_eq_2)

lemma tbin_Scalar_Vec: "tbin f (Scalar x) (Vec v) = Some (Vec (map (f x) v))"
  by (simp add: tbin_def broadcast_rows_def broadcast_same broadcast_single_left)

lemma tbin_Vec_Vec:
  "length xs = length ys \<Longrightarrow> tbin f (Vec xs) (Vec ys) = Some (Vec (map2 f xs ys))"
  by (simp add: tbin_def broadcast_rows_def broadcast_same)

lemma sum_list_concat_rows:
  "sum_list (concat (xss :: real list list)) = sum_list (map sum_list xss)"
  by (induction xss) simp_all

lemma sum_list_table:
  "sum_list (concat (table n a g)) = (\<Sum>i<n. \<Sum>j<a. g i j)"
  by (simp add: table_def sum_list_concat_rows comp_def interv_sum_list_conv_sum_set_nat
      atLeast0LessThan)

lemma length_concat_table: "length (concat (table n a g)) = n * a"
  by (simp add: table_def length_concat comp_def sum_list_triv)

lemma set_elements_table:
  "set (elements (Mat (table n a g))) = {g i j | i j. i < n \<and> j < a}"
  by (fastforce simp add: elements_def table_def)

lemma reduce_mean_table:
  assumes "0 < n" and "0 < a"
  shows "reduce_mean (Mat (table n a g)) = Some ((\<Sum>i<n. \<Sum>j<a. g i j) / real (n * a))"
proof -
  have "length (concat (table n a g)) \<noteq> 0"
    using assms by (simp add: length_concat_table)
  then have "concat (table n a g) \<noteq> []"
    by (metis list.size(3))
  then show ?thesis
    by (simp add: reduce_mean_def elements_def sum_list_table length_concat_table Let_def)
qed

lemma table_cong:
  "(\<And>i j. i < n \<Longrightarrow> j < a \<Longrightarrow> g i j = h i j) \<Longrightarrow> table n a g = table n a h"
  by (simp add: table_def)

lemma map_map_table: "map (map f) (table n a g) = table n a (\<lambda>i j. f (g i j))"
  by (simp add: table_def comp_def)

lemma Mat_eq_table:
  assumes "length M = n" and "\<forall>row\<in>set M. length row = a"
  shows "Mat M = Mat (table n a (\<lambda>i j. M ! i ! j))"
  using matrix_eq_table[of M n a] assms by simp

lemma tdiv_Mat_Mat:
  assumes "\<forall>i<n. \<forall>j<a. q i j \<noteq> 0"
  shows "tdiv (Mat (table n a p)) (Mat (table n a q)) = Some (Mat (table n a (\<lambda>i j. p i j / q i j)))"
proof -
  have "0 \<notin> set (elements (Mat (table n a q)))"
    unfolding set_elements_table using assms by force
  then show ?thesis
    by (simp add: tdiv_def tbin_Mat_Mat)
qed

lemma placeholder_ok:
  "\<forall>row\<in>set M. length row = a \<Longrightarrow> placeholder a M = Some (Mat M)"
  by (simp add: placeholder_def list_all_iff)




section \<open>The PPO objective\<close>

subsection \<open>The losses on tensors of given shapes\<close>

lemma policy_loss_table:
  assumes "length (advantage feed) = n" and "0 < n" and "0 < a"
    and "\<forall>i<n. \<forall>j<a. q i j \<noteq> 0"
  shows "policy_loss (create_ppo_optimizer (Mat (table n a p)) (Mat (table n a q)) v ent
            beta epsilon lr max_step feed step)
         = Some (- ((\<Sum>i<n. \<Sum>j<a.
                      min (p i j / q i j * advantage feed ! i)
                          (clip (p i j / q i j) (1 - epsilon) (1 + epsilon) * advantage feed ! i))
                    / real (n * a)))"
  using assms
  by (simp add: create_ppo_optimizer_def Let_def tdiv_Mat_Mat tmul_def tminimum_def
      tbin_Mat_column tbin_Mat_Mat clip_by_value_def map_map_table reduce_mean_table)

lemma clipped_branch:
  assumes "0 \<le> epsilon" and "0 < adv" and "1 + epsilon < r"
  shows "min (r * adv) (clip r (1 - epsilon) (1 + epsilon) * adv) = (1 + epsilon) * adv"
    and "(1 + epsilon) * adv \<noteq> r * adv"
proof -
  have c: "clip r (1 - epsilon) (1 + epsilon) = 1 + epsilon"
    using assms by (simp add: clip_def)
  have lt: "(1 + epsilon) * adv < r * adv"
    using assms by (simp add: mult_strict_right_mono)
  show "min (r * adv) (clip r (1 - epsilon) (1 + epsilon) * adv) = (1 + epsilon) * adv"
    unfolding c using lt by (simp add: min_def)
  show "(1 + epsilon) * adv \<noteq> r * adv"
    using lt by linarith
qed

lemma policy_loss_defined:
  assumes "length P = n" and "\<forall>row\<in>set P. length row = a"
    and "length Q = n" and "\<forall>row\<in>set Q. length row = a"
    and "length (advantage feed) = n" and "0 < n" and "0 < a"
    and "\<forall>row\<in>set Q. 0 \<notin> set row"
  shows "policy_loss (create_ppo_optimizer (Mat P) (Mat Q) v ent beta epsilon lr max_step
            feed step)
         = Some (- ((\<Sum>i<n. \<Sum>j<a.
                      min (P ! i ! j / Q ! i ! j * advantage feed ! i)
                          (clip (P ! i ! j / Q ! i ! j) (1 - epsilon) (1 + epsilon)
                             * advantage feed ! i))
                    / real (n * a)))"
proof -
  have nz: "\<forall>i<n. \<forall>j<a. Q ! i ! j \<noteq> 0"
  proof (intro allI impI)
    fix i j assume "i < n" "j < a"
    then have "Q ! i \<in> set Q" "Q ! i ! j \<in> set (Q ! i)"
      using assms by simp_all
    then show "Q ! i ! j \<noteq> 0"
      using assms(8) by metis
  qed
  show ?thesis
    unfolding Mat_eq_table[OF assms(1,2)] Mat_eq_table[OF assms(3,4)]
    using policy_loss_table[OF assms(5,6,7) nz]
    by simp
qed

lemma policy_loss_vectors:
  assumes "length ps = n" and "length qs = n" and "length (advantage feed) = n"
    and "0 < n" and "0 \<notin> set qs"
  shows "policy_loss (create_ppo_optimizer (Vec ps) (Vec qs) v ent beta epsilon lr max_step
            feed step)
         = Some (- ((\<Sum>i<n. \<Sum>j<n.
                      min (ps ! i / qs ! i * advantage feed ! j)
                          (clip (ps ! i / qs ! i) (1 - epsilon) (1 + epsilon) * advantage feed ! j))
                    / real (n * n)))"
proof -
  define A where "A = advantage feed"
  define r where "r = map2 (/) ps qs"
  define c where "c = (\<lambda>x. clip x (1 - epsilon) (1 + epsilon))"
  have len: "length r = n" "length A = n"
    using assms by (simp_all add: r_def A_def)
  have r_nth: "r ! i = ps ! i / qs ! i" if "i < n" for i
    using that assms by (simp add: r_def)
  have d: "tdiv (Vec ps) (Vec qs) = Some (Vec r)"
    using assms by (simp add: tdiv_def elements_def tbin_Vec_Vec r_def)
  have a: "tmul (Vec r) (column A) = Some (Mat (table n n (\<lambda>j i. r ! i * A ! j)))"
    using len by (simp add: tmul_def tbin_Vec_column)
  have "tmul (clip_by_value (Vec r) (1 - epsilon) (1 + epsilon)) (column A)
          = Some (Mat (table n n (\<lambda>j i. map c r ! i * A ! j)))"
    using len by (simp add: tmul_def tbin_Vec_column clip_by_value_def c_def)
  also have "table n n (\<lambda>j i. map c r ! i * A ! j) = table n n (\<lambda>j i. c (r ! i) * A ! j)"
    using len by (intro table_cong) simp
  finally have b: "tmul (clip_by_value (Vec r) (1 - epsilon) (1 + epsilon)) (column A)
          = Some (Mat (table n n (\<lambda>j i. c (r ! i) * A ! j)))" .
  have m: "tminimum (Mat (table n n (\<lambda>j i. r ! i * A ! j)))
             (Mat (table n n (\<lambda>j i. c (r ! i) * A ! j)))
           = Some (Mat (table n n (\<lambda>j i. min (r ! i * A ! j) (c (r ! i) * A ! j))))"
    by (simp add: tminimum_def tbin_Mat_Mat)
  have mean: "reduce_mean (Mat (table n n (\<lambda>j i. min (r ! i * A ! j) (c (r ! i) * A ! j))))
           = Some ((\<Sum>j<n. \<Sum>i<n. min (r ! i * A ! j) (c (r ! i) * A ! j)) / real (n * n))"
    using assms by (intro reduce_mean_table)
  have "(\<Sum>j<n. \<Sum>i<n. min (r ! i * A ! j) (c (r ! i) * A ! j))
          = (\<Sum>i<n. \<Sum>j<n. min (r ! i * A ! j) (c (r ! i) * A ! j))"
    by (rule sum.swap)
  also have "\<dots> = (\<Sum>i<n. \<Sum>j<n. min (ps ! i / qs ! i * A ! j) (c (ps ! i / qs ! i) * A ! j))"
    by (intro sum.cong refl) (simp add: r_nth)
  finally have s: "(\<Sum>j<n. \<Sum>i<n. min (r ! i * A ! j) (c (r ! i) * A ! j))
          = (\<Sum>i<n. \<Sum>j<n. min (ps ! i / qs ! i * A ! j) (c (ps ! i / qs ! i) * A ! j))" .
  have "policy_loss (create_ppo_optimizer (Vec ps) (Vec qs) v ent beta epsilon lr max_step
            feed step)
        = Some (- ((\<Sum>j<n. \<Sum>i<n. min (r ! i * A ! j) (c (r ! i) * A ! j)) / real (n * n)))"
    unfolding create_ppo_optimizer_def Let_def A_def[symmetric]
    by (simp only: d a b m mean ppo_tensors.simps Option.bind.simps)
  then show ?thesis
    unfolding s by (simp only: A_def c_def)
qed



subsection \<open>The clipped surrogate\<close>

text \<open>
  Claim C1. For probabilities \<open>P\<close> and old probabilities \<open>Q\<close> of shape \<open>[n, a]\<close> (the
  shape they have in the continuous model) and \<open>n\<close> advantages, the ratio is
  \<open>r = P / Q\<close> entry by entry, and the policy loss is minus the mean over all entries of
  \<open>min (r * advantage) (clip r (1 - epsilon) (1 + epsilon) * advantage)\<close>, the advantage
  being that of the entry's row. For a clip threshold \<open>epsilon \<ge> 0\<close>, a term with
  \<open>advantage > 0\<close> and \<open>r > 1 + epsilon\<close> is \<open>(1 + epsilon) * advantage\<close>, which differs
  from \<open>r * advantage\<close>. (In the discrete model the probabilities have the shape
  \<open>[n]\<close>; that case follows below.)
\<close>

theorem clipped_surrogate:
  assumes "length P = n" and "\<forall>row\<in>set P. length row = a"
    and "length Q = n" and "\<forall>row\<in>set Q. length row = a"
    and "length (advantage feed) = n" and "0 < n" and "0 < a"
    and "\<forall>row\<in>set Q. 0 \<notin> set row"
  shows "policy_loss (create_ppo_optimizer (Mat P) (Mat Q) v ent beta epsilon lr max_step
            feed step)
         = Some (- ((\<Sum>i<n. \<Sum>j<a.
                      min (P ! i ! j / Q ! i ! j * advantage feed ! i)
                          (clip (P ! i ! j / Q ! i ! j) (1 - epsilon) (1 + epsilon)
                             * advantage feed ! i))
                    / real (n * a)))
       \<and> (\<forall>r adv. 0 \<le> epsilon \<and> 0 < adv \<and> 1 + epsilon < r \<longrightarrow>
             min (r * adv) (clip r (1 - epsilon) (1 + epsilon) * adv) = (1 + epsilon) * adv
             \<and> (1 + epsilon) * adv \<noteq> r * adv)"
  using policy_loss_defined[OF assms] clipped_branch
  by simp

theorem clipped_surrogate_witness:
  "policy_loss (create_ppo_optimizer (Mat [[3]]) (Mat [[2]]) (Mat [[0]]) (Vec [0]) 0 (1/5)
      (1/10000) 5000000 example_ppo_feed 0) = Some (- (6/5))
   \<and> min (3/2 * 1) (clip (3/2) (1 - 1/5) (1 + 1/5) * 1) = (1 + 1/5) * (1::real)"
proof -
  have "policy_loss (create_ppo_optimizer (Mat [[3]]) (Mat [[2]]) (Mat [[0]]) (Vec [0]) 0 (1/5)
      (1/10000) 5000000 example_ppo_feed 0) = Some (- (6/5))
    \<and> (\<forall>r adv. 0 \<le> (1/5::real) \<and> 0 < adv \<and> 1 + 1/5 < r \<longrightarrow>
          min (r * adv) (clip r (1 - 1/5) (1 + 1/5) * adv) = (1 + 1/5) * adv
          \<and> (1 + 1/5) * adv \<noteq> r * adv)"
    using clipped_surrogate[of "[[3]]" 1 1 "[[2]]" example_ppo_feed "Mat [[0]]" "Vec [0]" 0 "1/5"
        "1/10000" 5000000 0]
    by (simp add: example_ppo_feed_def clip_def)
  then have "policy_loss (create_ppo_optimizer (Mat [[3]]) (Mat [[2]]) (Mat [[0]]) (Vec [0]) 0
      (1/5) (1/10000) 5000000 example_ppo_feed 0) = Some (- (6/5))"
    and "0 \<le> (1/5::real) \<and> 0 < (1::real) \<and> 1 + 1/5 < (3/2::real) \<longrightarrow>
          min (3/2 * 1) (clip (3/2) (1 - 1/5) (1 + 1/5) * 1) = (1 + 1/5) * (1::real)
          \<and> (1 + 1/5) * (1::real) \<noteq> 3/2 * 1"
    by blast+
  then show ?thesis
    by simp
qed

subsection \<open>The discrete model\<close>

lemma softmax_table:
  assumes "length L = n" and "\<forall>row\<in>set L. length row = a"
  shows "softmax L = Mat (table n a (\<lambda>i j. exp (L ! i ! j) / (\<Sum>k<a. exp (L ! i ! k))))"
proof -
  have L: "L = table n a (\<lambda>i j. L ! i ! j)"
    using assms by (intro matrix_eq_table) simp_all
  have "softmax (table n a l) = Mat (table n a (\<lambda>i j. exp (l i j) / (\<Sum>k<a. exp (l i k))))" for l
    by (simp add: softmax_def table_def comp_def interv_sum_list_conv_sum_set_nat atLeast0LessThan)
  from this[of "\<lambda>i j. L ! i ! j"] L show ?thesis
    by simp
qed

lemma one_hot_table:
  "length labels = n \<Longrightarrow>
   one_hot_encoding labels a = Mat (table n a (\<lambda>i j. if int j = labels ! i then 1 else 0))"
  by (simp add: one_hot_encoding_def table_def) (intro nth_equalityI, simp_all)

lemma map_sum_list_table:
  "map sum_list (table n a g) = map (\<lambda>i. \<Sum>j<a. g i j) [0..<n]"
  by (simp add: table_def comp_def interv_sum_list_conv_sum_set_nat atLeast0LessThan)

lemma responsible_table:
  "responsible (Mat (table n a p)) (Mat (table n a s))
     = Some (Vec (map (\<lambda>i. \<Sum>j<a. p i j * s i j) [0..<n]))"
  by (simp add: responsible_def tmul_def tbin_Mat_Mat map_sum_list_table)

lemma discrete_entropy_Mat:
  "discrete_entropy (Mat M)
     = Some (Vec (map (\<lambda>row. - sum_list (map (\<lambda>x. x * ln (x + 1 / 10 ^ 10)) row)) M))"
  by (simp add: discrete_entropy_def comp_def)

lemma discrete_run_tensors:
  fixes net :: discrete_net and feed :: discrete_feed and m :: discrete_control_model
    and n a :: nat
  defines "L \<equiv> policy net" and "acts \<equiv> action_holder feed" and "old \<equiv> d_old_probs feed"
  defines "ps \<equiv> map (\<lambda>i. \<Sum>j<a. exp (L ! i ! j) / (\<Sum>k<a. exp (L ! i ! k))
                                  * (if int j = acts ! i then 1 else 0)) [0..<n]"
    and "qs \<equiv> map (\<lambda>i. \<Sum>j<a. old ! i ! j * (if int j = acts ! i then 1 else 0)) [0..<n]"
  assumes "nat (d_a_size m) = a"
    and "length L = n" and "\<forall>row\<in>set L. length row = a"
    and "length old = n" and "\<forall>row\<in>set old. length row = a"
    and "length acts = n"
  shows "responsible_probs (discrete_run m net feed) = Some (Vec ps)"
    and "old_responsible_probs (discrete_run m net feed) = Some (Vec qs)"
    and "\<exists>es. length es = n \<and> d_entropy (discrete_run m net feed) = Some (Vec es)
           \<and> d_optimizer_tensors (discrete_run m net feed)
               = Some (run_optimizer (d_optimizer m) (Vec ps) (Vec qs) (Mat (d_value net))
                         (Vec es) (d_ppo_feed feed))"
proof -
  let ?run = "discrete_run m net feed"
  have sel: "one_hot_encoding acts a = Mat (table n a (\<lambda>i j. if int j = acts ! i then 1 else 0))"
    using assms by (intro one_hot_table) simp
  show rp: "responsible_probs ?run = Some (Vec ps)"
    using assms(6-)
    by (simp add: discrete_run_def Let_def softmax_table[of L n a] sel responsible_table
        L_def[symmetric] acts_def[symmetric] ps_def)
  have oldM: "Mat old = Mat (table n a (\<lambda>i j. old ! i ! j))"
    using assms(6-) by (intro Mat_eq_table) simp_all
  show orp: "old_responsible_probs ?run = Some (Vec qs)"
    using assms(6-)
    by (simp add: discrete_run_def Let_def placeholder_ok old_def[symmetric] oldM sel
        responsible_table acts_def[symmetric] qs_def)
  obtain es where es: "d_entropy ?run = Some (Vec es)" "length es = n"
    using assms(7) by (simp add: discrete_run_def Let_def softmax_def discrete_entropy_Mat L_def)
  have "d_optimizer_tensors ?run
        = do { r \<leftarrow> responsible_probs ?run; r' \<leftarrow> old_responsible_probs ?run;
               e \<leftarrow> d_entropy ?run;
               Some (run_optimizer (d_optimizer m) r r' (Mat (d_value net)) e (d_ppo_feed feed)) }"
    by (simp add: discrete_run_def Let_def)
  then have "d_optimizer_tensors ?run
               = Some (run_optimizer (d_optimizer m) (Vec ps) (Vec qs) (Mat (d_value net))
                         (Vec es) (d_ppo_feed feed))"
    by (simp add: rp orp es)
  with es show "\<exists>es. length es = n \<and> d_entropy ?run = Some (Vec es)
           \<and> d_optimizer_tensors ?run
               = Some (run_optimizer (d_optimizer m) (Vec ps) (Vec qs) (Mat (d_value net))
                         (Vec es) (d_ppo_feed feed))"
    by blast
qed

text \<open>
  Claim C2. In the discrete model, for a batch of \<open>n\<close> states (logits and old
  probabilities of shape \<open>[n, a]\<close>, \<open>n\<close> actions, \<open>n\<close> advantages), the probabilities
  \<open>ps\<close> and \<open>qs\<close> of the taken actions are vectors of \<open>n\<close> entries, and the advantages
  are a column of shape \<open>[n, 1]\<close>. Where no old probability \<open>qs ! i\<close> is zero, the policy
  loss is \<open>- (1 / n\<^sup>2)\<close> times the sum, over all pairs \<open>(i, j)\<close> with \<open>i, j < n\<close>, of
  \<open>min (r\<^sub>i * adv\<^sub>j) (clip r\<^sub>i (1 - eps) (1 + eps) * adv\<^sub>j)\<close>, where
  \<open>r\<^sub>i = ps ! i / qs ! i\<close>: each ratio is paired with every advantage.
\<close>

theorem discrete_policy_loss_all_pairs:
  fixes net :: discrete_net and feed :: discrete_feed and m :: discrete_control_model
    and n a :: nat
  defines "L \<equiv> policy net" and "acts \<equiv> action_holder feed" and "old \<equiv> d_old_probs feed"
    and "adv \<equiv> advantage (d_ppo_feed feed)" and "eps \<equiv> opt_epsilon (d_optimizer m)"
  defines "ps \<equiv> map (\<lambda>i. \<Sum>j<a. exp (L ! i ! j) / (\<Sum>k<a. exp (L ! i ! k))
                                  * (if int j = acts ! i then 1 else 0)) [0..<n]"
    and "qs \<equiv> map (\<lambda>i. \<Sum>j<a. old ! i ! j * (if int j = acts ! i then 1 else 0)) [0..<n]"
  assumes a: "nat (d_a_size m) = a" and n: "0 < n"
    and L: "length L = n" "\<forall>row\<in>set L. length row = a"
    and old: "length old = n" "\<forall>row\<in>set old. length row = a"
    and acts: "length acts = n" and adv: "length adv = n"
  shows "responsible_probs (discrete_run m net feed) = Some (Vec ps)
       \<and> old_responsible_probs (discrete_run m net feed) = Some (Vec qs)
       \<and> (0 \<notin> set qs \<longrightarrow>
           (\<exists>t. d_optimizer_tensors (discrete_run m net feed) = Some t
              \<and> policy_loss t =
                  Some (- (1 / (real n)\<^sup>2)
                        * (\<Sum>i<n. \<Sum>j<n.
                             min (ps ! i / qs ! i * adv ! j)
                                 (clip (ps ! i / qs ! i) (1 - eps) (1 + eps) * adv ! j)))))"
proof -
  let ?run = "discrete_run m net feed"
  have rp: "responsible_probs ?run = Some (Vec ps)"
    using a L old acts unfolding ps_def L_def acts_def old_def
    by (rule discrete_run_tensors(1))
  have orp: "old_responsible_probs ?run = Some (Vec qs)"
    using a L old acts unfolding qs_def L_def acts_def old_def
    by (rule discrete_run_tensors(2))
  have "\<exists>es. length es = n \<and> d_entropy ?run = Some (Vec es)
           \<and> d_optimizer_tensors ?run
               = Some (run_optimizer (d_optimizer m) (Vec ps) (Vec qs) (Mat (d_value net))
                         (Vec es) (d_ppo_feed feed))"
    using a L old acts unfolding ps_def qs_def L_def acts_def old_def
    by (rule discrete_run_tensors(3))
  then obtain es where
    opt: "d_optimizer_tensors ?run
            = Some (run_optimizer (d_optimizer m) (Vec ps) (Vec qs) (Mat (d_value net))
                      (Vec es) (d_ppo_feed feed))"
    by blast
  have len: "length ps = n" "length qs = n"
    by (simp_all add: ps_def qs_def)
  have "\<exists>t. d_optimizer_tensors ?run = Some t
              \<and> policy_loss t =
                  Some (- (1 / (real n)\<^sup>2)
                        * (\<Sum>i<n. \<Sum>j<n.
                             min (ps ! i / qs ! i * adv ! j)
                                 (clip (ps ! i / qs ! i) (1 - eps) (1 + eps) * adv ! j)))"
    if nz: "0 \<notin> set qs"
  proof -
    have "policy_loss (run_optimizer (d_optimizer m) (Vec ps) (Vec qs) (Mat (d_value net))
              (Vec es) (d_ppo_feed feed))
          = Some (- ((\<Sum>i<n. \<Sum>j<n.
                             min (ps ! i / qs ! i * adv ! j)
                                 (clip (ps ! i / qs ! i) (1 - eps) (1 + eps) * adv ! j))
                     / real (n * n)))"
      unfolding run_optimizer_def adv_def eps_def
      using len adv n nz
      by (intro policy_loss_vectors) (simp_all add: adv_def)
    then show ?thesis
      unfolding opt by (simp add: power2_eq_square)
  qed
  with rp orp show ?thesis
    by blast
qed

theorem discrete_policy_loss_all_pairs_witness:
  "responsible_probs (discrete_run example_discrete_model example_discrete_net
       example_discrete_feed) = Some (Vec [1/2, 1/2])
   \<and> old_responsible_probs (discrete_run example_discrete_model example_discrete_net
       example_discrete_feed) = Some (Vec [1/2, 1/4])
   \<and> (\<exists>t. d_optimizer_tensors (discrete_run example_discrete_model example_discrete_net
              example_discrete_feed) = Some t
          \<and> policy_loss t = Some (1/5))"
  using discrete_policy_loss_all_pairs[of example_discrete_model 2 2 example_discrete_net
      example_discrete_feed]
  by (simp add: example_discrete_model_def example_discrete_net_def example_discrete_feed_def
      ppo_optimizer_init_def numeral_2_eq_2 lessThan_Suc clip_def upt_rec)

text \<open>On the same input, pairing each ratio with the advantage of its own index only
  (ratios 1 and 2, advantages 1 and -1) would give the loss 1/2 instead of 1/5.\<close>

lemma own_advantage_pairing_example:
  "- ((min (1 * 1) (clip 1 (1 - 1/5) (1 + 1/5) * 1)
       + min (2 * (- 1)) (clip 2 (1 - 1/5) (1 + 1/5) * (- 1))) / 2) = (1/2 :: real)"
  by (simp add: clip_def)

subsection \<open>The continuous model\<close>

lemma sigma_sq_Vec: "sigma_sq net = Vec (map exp (log_sigma_sq net))"
  by (simp add: sigma_sq_def)

lemma continuous_output_table:
  fixes net :: continuous_net and feed :: continuous_feed and n a :: nat
  defines "M \<equiv> mu net" and "s \<equiv> log_sigma_sq net" and "E \<equiv> c_epsilon feed"
  assumes "length s = a"
    and "length M = n" and "\<forall>row\<in>set M. length row = a"
    and "length E = n" and "\<forall>row\<in>set E. length row = a"
  shows "continuous_output a net feed
           = Some (Mat (table n a (\<lambda>i j. M ! i ! j + sqrt (exp (s ! j)) * E ! i ! j)))"
proof -
  define sd where "sd = map sqrt (map exp s)"
  have sd: "length sd = a" "\<And>j. j < a \<Longrightarrow> sd ! j = sqrt (exp (s ! j))"
    using assms by (simp_all add: sd_def)
  have E: "Mat E = Mat (table n a (\<lambda>i j. E ! i ! j))"
    using assms by (intro Mat_eq_table) simp_all
  have M: "Mat M = Mat (table n a (\<lambda>i j. M ! i ! j))"
    using assms by (intro Mat_eq_table) simp_all
  have p: "placeholder a (c_epsilon feed) = Some (Mat (table n a (\<lambda>i j. E ! i ! j)))"
    using assms E by (simp add: placeholder_ok)
  have noise: "tmul (tmap sqrt (sigma_sq net)) (Mat (table n a (\<lambda>i j. E ! i ! j)))
                 = Some (Mat (table n a (\<lambda>i j. sd ! j * E ! i ! j)))"
    using sd(1) by (simp add: sigma_sq_Vec tmul_def tbin_Vec_Mat sd_def s_def)
  have sum: "tadd (Mat (mu net)) (Mat (table n a (\<lambda>i j. sd ! j * E ! i ! j)))
               = Some (Mat (table n a (\<lambda>i j. M ! i ! j + sd ! j * E ! i ! j)))"
    unfolding M_def[symmetric] M by (simp add: tadd_def tbin_Mat_Mat)
  have "table n a (\<lambda>i j. M ! i ! j + sd ! j * E ! i ! j)
          = table n a (\<lambda>i j. M ! i ! j + sqrt (exp (s ! j)) * E ! i ! j)"
    by (intro table_cong) (simp add: sd(2))
  then show ?thesis
    by (simp add: continuous_output_def p noise sum)
qed

lemma continuous_probs_at_table:
  fixes current net :: continuous_net and feed :: continuous_feed and n a :: nat
  defines "M0 \<equiv> mu current" and "s0 \<equiv> log_sigma_sq current" and "E \<equiv> c_epsilon feed"
    and "M \<equiv> mu net" and "s \<equiv> log_sigma_sq net"
  defines "act \<equiv> \<lambda>i j. M0 ! i ! j + sqrt (exp (s0 ! j)) * E ! i ! j"
  assumes cur: "length s0 = a" "length M0 = n" "\<forall>row\<in>set M0. length row = a"
    and E: "length E = n" "\<forall>row\<in>set E. length row = a"
    and net: "length s = a" "length M = n" "\<forall>row\<in>set M. length row = a"
  shows "continuous_probs_at a current feed net
           = Some (Mat (table n a (\<lambda>i j. exp (- (act i j - M ! i ! j)\<^sup>2 / (2 * exp (s ! j)))
                                            / sqrt (2 * pi * exp (s ! j)))))"
proof -
  define tw where "tw = map (\<lambda>s. 2 * s) (map exp s)"
  define b where "b = map ((/) 1) (map sqrt (map (\<lambda>s. 2 * s * pi) (map exp s)))"
  have tw: "length tw = a" "\<And>j. j < a \<Longrightarrow> tw ! j = 2 * exp (s ! j)" "0 \<notin> set tw"
    using net by (auto simp add: tw_def)
  have b: "length b = a" "\<And>j. j < a \<Longrightarrow> b ! j = 1 / sqrt (2 * exp (s ! j) * pi)"
    using net by (simp_all add: b_def)
  have M: "Mat M = Mat (table n a (\<lambda>i j. M ! i ! j))"
    using net by (intro Mat_eq_table) simp_all
  have "continuous_output a current feed = Some (Mat (table n a act))"
    unfolding act_def M0_def s0_def E_def using cur E
    by (intro continuous_output_table) (simp_all add: M0_def s0_def E_def)
  then have out: "stop_gradient current (\<lambda>p. continuous_output a p feed) net
                    = Some (Mat (table n a act))"
    by (simp add: stop_gradient_def)
  have d: "tsub (Mat (table n a act)) (Mat (mu net))
             = Some (Mat (table n a (\<lambda>i j. act i j - M ! i ! j)))"
    unfolding M_def[symmetric] M by (simp add: tsub_def tbin_Mat_Mat)
  have sq: "tmap (\<lambda>x. -1 * x\<^sup>2) (Mat (table n a (\<lambda>i j. act i j - M ! i ! j)))
              = Mat (table n a (\<lambda>i j. -1 * (act i j - M ! i ! j)\<^sup>2))"
    by (rule tmap_table)
  have q: "tdiv (Mat (table n a (\<lambda>i j. -1 * (act i j - M ! i ! j)\<^sup>2)))
               (tmap (\<lambda>s. 2 * s) (sigma_sq net))
             = Some (Mat (table n a (\<lambda>i j. -1 * (act i j - M ! i ! j)\<^sup>2 / tw ! j)))"
    using tw(1,3)
    by (simp add: sigma_sq_Vec tdiv_def elements_def tbin_Mat_Vec tw_def s_def)
  have ex: "tmap exp (Mat (table n a (\<lambda>i j. -1 * (act i j - M ! i ! j)\<^sup>2 / tw ! j)))
              = Mat (table n a (\<lambda>i j. exp (-1 * (act i j - M ! i ! j)\<^sup>2 / tw ! j)))"
    by (rule tmap_table)
  have bb: "tdiv (Scalar 1) (tmap sqrt (tmap (\<lambda>s. 2 * s * pi) (sigma_sq net))) = Some (Vec b)"
    by (auto simp add: sigma_sq_Vec tdiv_def elements_def tbin_Scalar_Vec b_def s_def)
  have pr: "tmul (Mat (table n a (\<lambda>i j. exp (-1 * (act i j - M ! i ! j)\<^sup>2 / tw ! j)))) (Vec b)
              = Some (Mat (table n a
                   (\<lambda>i j. exp (-1 * (act i j - M ! i ! j)\<^sup>2 / tw ! j) * b ! j)))"
    using b(1) by (simp add: tmul_def tbin_Mat_Vec)
  have fin: "table n a (\<lambda>i j. exp (-1 * (act i j - M ! i ! j)\<^sup>2 / tw ! j) * b ! j)
          = table n a (\<lambda>i j. exp (- (act i j - M ! i ! j)\<^sup>2 / (2 * exp (s ! j)))
                                / sqrt (2 * pi * exp (s ! j)))"
    by (intro table_cong) (simp add: tw(2) b(2) mult.commute mult.left_commute)
  show ?thesis
    unfolding continuous_probs_at_def out
    by (simp only: Option.bind.simps d sq q ex bb pr fin option.map)
qed


lemma length_dense: "length (dense inputs units weights activation) = length inputs"
  by (simp add: dense_def)

lemma length_row_dense:
  "row \<in> set (dense inputs units weights activation) \<Longrightarrow> length row = units"
  by (auto simp add: dense_def)

lemma continuous_layers_shapes:
  assumes "\<forall>row\<in>set state. length row = nat (c_s_size m)"
  shows "\<exists>net. continuous_layers m vars state = Some net
           \<and> length (mu net) = length state
           \<and> (\<forall>row\<in>set (mu net). length row = nat (c_a_size m))
           \<and> length (log_sigma_sq net) = nat (c_a_size m)
           \<and> length (c_value net) = length state
           \<and> (\<forall>row\<in>set (c_value net). length row = 1)"
  using assms
  by (simp add: continuous_layers_def placeholder_ok Let_def length_dense length_row_dense)


subsection \<open>The total loss\<close>




subsection \<open>The learning rate\<close>

lemma polynomial_decay_linear:
  assumes "decay_steps \<noteq> 0"
  shows "polynomial_decay lr step decay_steps e 1
           = Some ((lr - e) * (1 - min step decay_steps / decay_steps) + e)"
  using assms by (simp add: polynomial_decay_def tf_pow_def Let_def)

lemma polynomial_decay_antimono:
  fixes decay_steps e lr s t :: real
  assumes "0 < decay_steps" and "e \<le> lr" and "s \<le> t"
  shows "(lr - e) * (1 - min t decay_steps / decay_steps) + e
           \<le> (lr - e) * (1 - min s decay_steps / decay_steps) + e"
proof -
  have "min s decay_steps \<le> min t decay_steps"
    using assms(3) by (simp add: min_def)
  then have "min s decay_steps / decay_steps \<le> min t decay_steps / decay_steps"
    using assms(1) by (simp add: divide_right_mono)
  then have "1 - min t decay_steps / decay_steps \<le> 1 - min s decay_steps / decay_steps"
    by simp
  then show ?thesis
    using assms by (simp add: mult_left_mono)
qed

text \<open>
  Claim C5. The learning rate is \<open>polynomial_decay\<close> with power 1 and end rate
  \<open>1 / 10 ^ 10\<close>, read at the step counter. For \<open>max_step > 0\<close> and a base rate
  \<open>lr \<ge> 1 / 10 ^ 10\<close> it is linear in the step up to \<open>max_step\<close>:
  \<open>lr - (lr - 1 / 10 ^ 10) * (step / max_step)\<close>, and \<open>1 / 10 ^ 10\<close> from \<open>max_step\<close> on.
  So at step 0 it is \<open>lr\<close>, at a step equal to \<open>max_step\<close> it is \<open>1 / 10 ^ 10\<close>, and it
  does not increase when the step counter increases (at any steps, so also between 0
  and \<open>max_step\<close>).
\<close>

theorem learning_rate_schedule:
  fixes lr max_step beta epsilon :: real and probs old_probs v ent :: tensor and feed :: ppo_feed
  defines "rate \<equiv> \<lambda>step. learning_rate
             (create_ppo_optimizer probs old_probs v ent beta epsilon lr max_step feed step)"
  assumes "0 < max_step" and "1 / 10 ^ 10 \<le> lr"
  shows "(\<forall>step. rate step
            = polynomial_decay lr (real_of_int (sint step)) max_step (1 / 10 ^ 10) 1)
       \<and> (\<forall>step. real_of_int (sint step) \<le> max_step \<longrightarrow>
            rate step = Some (lr - (lr - 1 / 10 ^ 10) * (real_of_int (sint step) / max_step)))
       \<and> (\<forall>step. max_step \<le> real_of_int (sint step) \<longrightarrow> rate step = Some (1 / 10 ^ 10))
       \<and> rate 0 = Some lr
       \<and> (\<forall>step. real_of_int (sint step) = max_step \<longrightarrow> rate step = Some (1 / 10 ^ 10))
       \<and> (\<forall>s t. sint s \<le> sint t \<longrightarrow> (\<exists>x y. rate s = Some x \<and> rate t = Some y \<and> y \<le> x))"
proof -
  have decay: "rate step = polynomial_decay lr (real_of_int (sint step)) max_step (1 / 10 ^ 10) 1"
    for step
    unfolding rate_def by (simp add: create_ppo_optimizer_def Let_def)
  have rate: "rate step = Some ((lr - 1 / 10 ^ 10)
                  * (1 - min (real_of_int (sint step)) max_step / max_step) + 1 / 10 ^ 10)" for step
    unfolding rate_def using assms(2)
    by (simp add: create_ppo_optimizer_def Let_def polynomial_decay_linear)
  have linear: "rate step
                  = Some (lr - (lr - 1 / 10 ^ 10) * (real_of_int (sint step) / max_step))"
    if "real_of_int (sint step) \<le> max_step" for step
  proof -
    have q: "min (real_of_int (sint step)) max_step = real_of_int (sint step)"
      using that by (simp only: min_def if_True)
    have "(lr - e) * (1 - q) + e = lr - (lr - e) * q" for e q :: real
      by (simp add: algebra_simps)
    then show ?thesis
      unfolding rate q by (simp only:)
  qed
  have floor: "rate step = Some (1 / 10 ^ 10)" if "max_step \<le> real_of_int (sint step)" for step
  proof -
    have "min (real_of_int (sint step)) max_step = max_step"
      using that by (simp only: min_def) simp
    then have "min (real_of_int (sint step)) max_step / max_step = 1"
      using assms(2) by (simp only:) simp
    then show ?thesis
      unfolding rate by (simp only:) simp
  qed
  have zero: "rate 0 = Some lr"
    unfolding rate using assms(2) by simp
  have mono: "\<exists>x y. rate s = Some x \<and> rate t = Some y \<and> y \<le> x" if "sint s \<le> sint t" for s t
  proof -
    have "real_of_int (sint s) \<le> real_of_int (sint t)"
      using that by (simp only: of_int_le_iff)
    from polynomial_decay_antimono[OF assms(2,3) this] show ?thesis
      unfolding rate by blast
  qed
  have final: "rate step = Some (1 / 10 ^ 10)" if "real_of_int (sint step) = max_step" for step
    using that by (intro floor) (simp only: order_refl)
  from decay linear floor zero final mono show ?thesis
    by blast
qed

theorem learning_rate_schedule_witness:
  "learning_rate (create_ppo_optimizer (Vec [1]) (Vec [1]) (Mat [[0]]) (Vec [0]) (1/1000) (1/5)
      (1/10000) 5000000 \<lparr>returns_holder = [0], advantage = [0]\<rparr> 0) = Some (1/10000)
   \<and> learning_rate (create_ppo_optimizer (Vec [1]) (Vec [1]) (Mat [[0]]) (Vec [0]) (1/1000) (1/5)
      (1/10000) 5000000 \<lparr>returns_holder = [0], advantage = [0]\<rparr> 2500000)
      = Some (1/10000 - (1/10000 - 1 / 10 ^ 10) * (2500000 / 5000000))
   \<and> learning_rate (create_ppo_optimizer (Vec [1]) (Vec [1]) (Mat [[0]]) (Vec [0]) (1/1000) (1/5)
      (1/10000) 5000000 \<lparr>returns_holder = [0], advantage = [0]\<rparr> 5000000) = Some (1 / 10 ^ 10)
   \<and> learning_rate (create_ppo_optimizer (Vec [1]) (Vec [1]) (Mat [[0]]) (Vec [0]) (1/1000) (1/5)
      (1/10000) 5000000 \<lparr>returns_holder = [0], advantage = [0]\<rparr> 6000000) = Some (1 / 10 ^ 10)
   \<and> (\<exists>x y. learning_rate (create_ppo_optimizer (Vec [1]) (Vec [1]) (Mat [[0]]) (Vec [0])
               (1/1000) (1/5) (1/10000) 5000000 \<lparr>returns_holder = [0], advantage = [0]\<rparr> 1)
               = Some x
           \<and> learning_rate (create_ppo_optimizer (Vec [1]) (Vec [1]) (Mat [[0]]) (Vec [0])
               (1/1000) (1/5) (1/10000) 5000000 \<lparr>returns_holder = [0], advantage = [0]\<rparr> 2)
               = Some y
           \<and> y \<le> x)"
proof -
  have h: "(0::real) < 5000000" "1 / 10 ^ 10 \<le> (1/10000 :: real)"
    by simp_all
  have s0: "real_of_int (sint (2500000 :: 32 word)) = 2500000"
    "real_of_int (sint (2500000 :: 32 word)) \<le> 5000000"
    by simp_all
  have s1: "real_of_int (sint (5000000 :: 32 word)) = 5000000"
    by simp
  have s2: "sint (1 :: 32 word) \<le> sint (2 :: 32 word)"
    by simp
  have s3: "(5000000 :: real) \<le> real_of_int (sint (6000000 :: 32 word))"
    by simp
  note t = learning_rate_schedule[OF h, of "Vec [1]" "Vec [1]" "Mat [[0]]" "Vec [0]" "1/1000" "1/5"
      "\<lparr>returns_holder = [0], advantage = [0]\<rparr>"]
  have "learning_rate (create_ppo_optimizer (Vec [1]) (Vec [1]) (Mat [[0]]) (Vec [0]) (1/1000)
      (1/5) (1/10000) 5000000 \<lparr>returns_holder = [0], advantage = [0]\<rparr> 2500000)
      = Some (1/10000 - (1/10000 - 1 / 10 ^ 10) * (real_of_int (sint (2500000 :: 32 word))
                / 5000000))"
    using t s0(2) by blast
  then have half: "learning_rate (create_ppo_optimizer (Vec [1]) (Vec [1]) (Mat [[0]]) (Vec [0])
      (1/1000) (1/5) (1/10000) 5000000 \<lparr>returns_holder = [0], advantage = [0]\<rparr> 2500000)
      = Some (1/10000 - (1/10000 - 1 / 10 ^ 10) * (2500000 / 5000000))"
    unfolding s0(1) .
  from t s1 s2 s3 half show ?thesis
    by blast
qed

subsection \<open>Entropy, action and density of the continuous policy\<close>

text \<open>
  Claim C9. The entropy of the continuous policy is
  \<open>0.5 * sum (ln (2 * pi * e * sigma_sq))\<close> over the action dimensions, with
  \<open>sigma_sq = exp log_sigma_sq\<close>, and it does not change when \<open>mu\<close> changes (nor with the
  value estimate, the feed or the other parameters of the model).
\<close>

theorem continuous_entropy_closed_form:
  "c_entropy (continuous_run m net feed)
     = Scalar (0.5 * (\<Sum>l\<leftarrow>log_sigma_sq net. ln (2 * pi * exp 1 * exp l)))
   \<and> c_entropy (continuous_run m' (net\<lparr>mu := mu', c_value := value'\<rparr>) feed')
     = c_entropy (continuous_run m net feed)"
proof -
  have half: "(\<Sum>x\<leftarrow>xs. 0.5 * ln (2 * pi * exp 1 * exp x))
                = 0.5 * (\<Sum>x\<leftarrow>xs. ln (2 * pi * exp 1 * exp x))" for xs :: "real list"
    by (induction xs) (simp_all add: algebra_simps)
  have e: "continuous_entropy net'
             = Scalar (0.5 * (\<Sum>l\<leftarrow>log_sigma_sq net'. ln (2 * pi * exp 1 * exp l)))" for net'
    unfolding half[symmetric]
    by (simp add: continuous_entropy_def reduce_sum_def elements_def sigma_sq_Vec comp_def)
  show ?thesis
    by (simp add: continuous_run_def Let_def e)
qed

lemma gaussian_density_derivative:
  fixes c x0 s k :: real
  assumes "0 < s" and "0 < k"
  shows "((\<lambda>x. exp (- (c - x)\<^sup>2 / (2 * s)) / k)
            has_real_derivative exp (- (c - x0)\<^sup>2 / (2 * s)) / k * ((c - x0) / s)) (at x0)"
  using assms
  by (auto intro!: derivative_eq_intros simp add: field_simps power2_eq_square)

text \<open>
  Claim C10. For a model the constructor has built, a batch of \<open>n\<close> states and a noise
  tensor \<open>E\<close> of shape \<open>[n, action_space_size]\<close>, the dense layers give \<open>mu\<close> of that
  shape; the action output
  of the continuous model has that shape and its entry \<open>(i, j)\<close> is
  \<open>mu + sqrt sigma_sq * E\<close>; the probabilities have the same shape (they are not reduced
  over the action dimensions), their entry \<open>(i, j)\<close> is
  \<open>exp (- (action - mu)\<^sup>2 / (2 * sigma_sq)) / sqrt (2 * pi * sigma_sq)\<close> at the sampled
  action, and they are the probabilities \<open>create_ppo_optimizer\<close> is called with.

  The sampled action is a constant for differentiation: as a function of the net
  (\<open>mu\<close> and \<open>log_sigma_sq\<close>), the probabilities are that density with the action held at
  its current value \<open>act net\<close>, and so their derivative by the entry \<open>(i, j)\<close> of \<open>mu\<close> is
  the density times \<open>(action - mu) / sigma_sq\<close>.
\<close>

theorem continuous_action_and_density:
  fixes vars :: continuous_variables and feed :: continuous_feed and state :: "real list list"
    and n :: nat and b :: brain and m :: continuous_control_model
    and lr epsilon max_step :: real and h_size :: int
  defines "a \<equiv> nat (action_space_size b)" and "E \<equiv> c_epsilon feed"
  defines "act \<equiv> \<lambda>net i j. mu net ! i ! j + sqrt (exp (log_sigma_sq net ! j)) * E ! i ! j"
  defines "density \<equiv> \<lambda>current net i j.
             exp (- (act current i j - mu net ! i ! j)\<^sup>2 / (2 * exp (log_sigma_sq net ! j)))
               / sqrt (2 * pi * exp (log_sigma_sq net ! j))"
  assumes m: "ContinuousControlModel lr b h_size epsilon max_step = Inr m"
    and "0 < state_space_size b"
    and state: "length state = n" "\<forall>row\<in>set state. length row = nat (state_space_size b)"
    and E: "length E = n" "\<forall>row\<in>set E. length row = a"
  shows "\<exists>net. continuous_layers m vars state = Some net
       \<and> length (mu net) = n \<and> (\<forall>row\<in>set (mu net). length row = a)
       \<and> length (log_sigma_sq net) = a
       \<and> c_output (continuous_run m net feed) = Some (Mat (table n a (act net)))
       \<and> c_probs (continuous_run m net feed) = Some (Mat (table n a (density net net)))
       \<and> (\<forall>net'. length (mu net') = n \<and> (\<forall>row\<in>set (mu net'). length row = a)
                  \<and> length (log_sigma_sq net') = a \<longrightarrow>
            continuous_probs_at a net feed net' = Some (Mat (table n a (density net net'))))
       \<and> (\<forall>i<n. \<forall>j<a.
            ((\<lambda>x. density net (net\<lparr>mu := (mu net)[i := (mu net ! i)[j := x]]\<rparr>) i j)
               has_real_derivative
                 density net net i j
                   * ((act net i j - mu net ! i ! j) / exp (log_sigma_sq net ! j)))
              (at (mu net ! i ! j)))
       \<and> c_optimizer_tensors (continuous_run m net feed)
           = map_option
               (\<lambda>old. create_ppo_optimizer (Mat (table n a (density net net))) old
                         (Mat (c_value net)) (c_entropy (continuous_run m net feed))
                         0 epsilon lr max_step (c_ppo_feed feed) 0)
               (placeholder a (c_old_probs feed))"
proof -
  have rec: "m = \<lparr>c_s_size = state_space_size b, c_a_size = action_space_size b,
                  c_h_size = h_size, c_optimizer = ppo_optimizer_init 0 epsilon lr max_step\<rparr>"
    using m by (rule ContinuousControlModel_Inr(1))
  have sizes: "nat (c_a_size m) = a" "nat (c_s_size m) = nat (state_space_size b)"
    by (simp_all add: rec a_def)
  obtain net where net: "continuous_layers m vars state = Some net"
    and M: "length (mu net) = n" "\<forall>row\<in>set (mu net). length row = a"
    and s: "length (log_sigma_sq net) = a"
    using continuous_layers_shapes[of state m vars] state by (auto simp add: sizes)
  have out: "continuous_output a net feed = Some (Mat (table n a (act net)))"
    unfolding act_def E_def using s M E
    by (intro continuous_output_table) (simp_all add: E_def)
  have at: "continuous_probs_at a net feed net' = Some (Mat (table n a (density net net')))"
    if "length (mu net') = n" "\<forall>row\<in>set (mu net'). length row = a"
      "length (log_sigma_sq net') = a" for net'
    unfolding density_def act_def E_def using s M E that
    by (intro continuous_probs_at_table) (simp_all add: E_def)
  have pr: "continuous_probs a net feed = Some (Mat (table n a (density net net)))"
    unfolding continuous_probs_def using M s by (intro at) simp_all
  have deriv: "((\<lambda>x. density net (net\<lparr>mu := (mu net)[i := (mu net ! i)[j := x]]\<rparr>) i j)
               has_real_derivative
                 density net net i j
                   * ((act net i j - mu net ! i ! j) / exp (log_sigma_sq net ! j)))
              (at (mu net ! i ! j))"
    if "i < n" "j < a" for i j
  proof -
    have "mu net ! i \<in> set (mu net)"
      using that M(1) by simp
    then have "j < length (mu net ! i)"
      using that M(2) by simp
    then have idx: "(mu net)[i := (mu net ! i)[j := x]] ! i ! j = x" for x
      using that M(1) by simp
    have f: "(\<lambda>x. density net (net\<lparr>mu := (mu net)[i := (mu net ! i)[j := x]]\<rparr>) i j)
          = (\<lambda>x. exp (- (act net i j - x)\<^sup>2 / (2 * exp (log_sigma_sq net ! j)))
                    / sqrt (2 * pi * exp (log_sigma_sq net ! j)))"
      by (rule ext) (simp add: density_def idx)
    have k: "0 < sqrt (2 * pi * exp (log_sigma_sq net ! j))"
      by simp
    have s: "0 < exp (log_sigma_sq net ! j)"
      by simp
    show ?thesis
      unfolding f
      using gaussian_density_derivative[OF s k, where c = "act net i j"
          and ?x0.0 = "mu net ! i ! j"]
      by (simp add: density_def)
  qed
  have opt: "c_optimizer_tensors (continuous_run m net feed)
           = map_option
               (\<lambda>old. create_ppo_optimizer (Mat (table n a (density net net))) old
                         (Mat (c_value net)) (c_entropy (continuous_run m net feed))
                         0 epsilon lr max_step (c_ppo_feed feed) 0)
               (placeholder a (c_old_probs feed))"
    unfolding continuous_run_def Let_def sizes
    by (cases "placeholder a (c_old_probs feed)")
      (simp_all add: pr run_optimizer_def rec ppo_optimizer_init_def)
  have "c_output (continuous_run m net feed) = Some (Mat (table n a (act net)))"
    and "c_probs (continuous_run m net feed) = Some (Mat (table n a (density net net)))"
    by (simp_all add: continuous_run_def Let_def sizes out pr)
  with net M s at deriv opt show ?thesis
    by blast
qed

theorem continuous_action_and_density_witness:
  "\<exists>net. continuous_layers small_continuous_model example_continuous_variables [[1]] = Some net
      \<and> mu net = [[0, 0]]
      \<and> c_output (continuous_run small_continuous_model net example_continuous_feed)
          = Some (Mat [[1, 2]])
      \<and> c_probs (continuous_run small_continuous_model net example_continuous_feed)
          = Some (Mat [[exp (- (1/2)) / sqrt (2 * pi), exp (- 2) / sqrt (2 * pi)]])
      \<and> continuous_probs_at 2 net example_continuous_feed (net\<lparr>mu := [[1, 1]]\<rparr>)
          = Some (Mat [[1 / sqrt (2 * pi), exp (- (1/2)) / sqrt (2 * pi)]])
      \<and> ((\<lambda>x. exp (- (1 - x)\<^sup>2 / 2) / sqrt (2 * pi))
            has_real_derivative exp (- (1/2)) / sqrt (2 * pi)) (at 0)"
proof -
  let ?net = "\<lparr>mu = [[0, 0]], log_sigma_sq = [0, 0], c_value = [[0]]\<rparr>"
  have m: "ContinuousControlModel (1/10000) small_continuous_brain 1 (1/5) 5000000
             = Inr small_continuous_model"
    by (simp add: ContinuousControlModel_built small_continuous_brain_def
        small_continuous_model_def)
  have layers: "continuous_layers small_continuous_model example_continuous_variables [[1]]
                  = Some ?net"
    by (simp add: continuous_layers_def placeholder_def dense_def Let_def
        small_continuous_model_def example_continuous_variables_def numeral_2_eq_2 upt_rec)
  have st: "length [[1::real]] = 1"
    "\<forall>row\<in>set [[1::real]]. length row = nat (state_space_size small_continuous_brain)"
    and E: "length (c_epsilon example_continuous_feed) = 1"
    "\<forall>row\<in>set (c_epsilon example_continuous_feed).
        length row = nat (action_space_size small_continuous_brain)"
    by (simp_all add: small_continuous_brain_def example_continuous_feed_def)
  have a: "nat (action_space_size small_continuous_brain) = 2"
    by (simp add: small_continuous_brain_def)
  let ?E = "c_epsilon example_continuous_feed"
  let ?act = "\<lambda>net i j. mu net ! i ! j + sqrt (exp (log_sigma_sq net ! j)) * ?E ! i ! j"
  let ?density = "\<lambda>current net i j.
             exp (- (?act current i j - mu net ! i ! j)\<^sup>2 / (2 * exp (log_sigma_sq net ! j)))
               / sqrt (2 * pi * exp (log_sigma_sq net ! j))"
  have pos: "0 < state_space_size small_continuous_brain"
    by (simp add: small_continuous_brain_def)
  from continuous_action_and_density[OF m pos st E, where vars = example_continuous_variables]
  obtain net where "continuous_layers small_continuous_model example_continuous_variables [[1]]
                      = Some net"
    and out0: "c_output (continuous_run small_continuous_model net example_continuous_feed)
                 = Some (Mat (table 1 2 (?act net)))"
    and pr0: "c_probs (continuous_run small_continuous_model net example_continuous_feed)
                 = Some (Mat (table 1 2 (?density net net)))"
    and at0: "\<forall>net'. length (mu net') = 1 \<and> (\<forall>row\<in>set (mu net'). length row = 2)
                  \<and> length (log_sigma_sq net') = 2 \<longrightarrow>
            continuous_probs_at 2 net example_continuous_feed net'
              = Some (Mat (table 1 2 (?density net net')))"
    and dv0: "\<forall>i<1. \<forall>j<2.
            ((\<lambda>x. ?density net (net\<lparr>mu := (mu net)[i := (mu net ! i)[j := x]]\<rparr>) i j)
               has_real_derivative
                 ?density net net i j
                   * ((?act net i j - mu net ! i ! j) / exp (log_sigma_sq net ! j)))
              (at (mu net ! i ! j))"
    unfolding a by blast
  then have net: "net = ?net"
    using layers by simp
  have out: "c_output (continuous_run small_continuous_model ?net example_continuous_feed)
          = Some (Mat [[1, 2]])"
    using out0 unfolding net
    by (simp add: example_continuous_feed_def table_def numeral_2_eq_2 upt_rec)
  have pr: "c_probs (continuous_run small_continuous_model ?net example_continuous_feed)
          = Some (Mat [[exp (- (1/2)) / sqrt (2 * pi), exp (- 2) / sqrt (2 * pi)]])"
    using pr0 unfolding net
    by (simp add: example_continuous_feed_def table_def numeral_2_eq_2 upt_rec)
  have "length (mu (?net\<lparr>mu := [[1, 1]]\<rparr>)) = 1
      \<and> (\<forall>row\<in>set (mu (?net\<lparr>mu := [[1, 1]]\<rparr>)). length row = 2)
      \<and> length (log_sigma_sq (?net\<lparr>mu := [[1, 1]]\<rparr>)) = 2"
    by simp
  with at0 have "continuous_probs_at 2 ?net example_continuous_feed (?net\<lparr>mu := [[1, 1]]\<rparr>)
              = Some (Mat (table 1 2 (?density ?net (?net\<lparr>mu := [[1, 1]]\<rparr>))))"
    unfolding net by blast
  then have at: "continuous_probs_at 2 ?net example_continuous_feed (?net\<lparr>mu := [[1, 1]]\<rparr>)
          = Some (Mat [[1 / sqrt (2 * pi), exp (- (1/2)) / sqrt (2 * pi)]])"
    by (simp add: example_continuous_feed_def table_def numeral_2_eq_2 upt_rec)
  have idx: "0 < (1::nat)" "0 < (2::nat)"
    by simp_all
  from dv0[unfolded net, rule_format, OF idx]
  have "((\<lambda>x. ?density ?net (?net\<lparr>mu := (mu ?net)[0 := (mu ?net ! 0)[0 := x]]\<rparr>) 0 0)
               has_real_derivative
                 ?density ?net ?net 0 0
                   * ((?act ?net 0 0 - mu ?net ! 0 ! 0) / exp (log_sigma_sq ?net ! 0)))
              (at (mu ?net ! 0 ! 0))" .
  then have d: "((\<lambda>x. exp (- (1 - x)\<^sup>2 / 2) / sqrt (2 * pi))
            has_real_derivative exp (- (1/2)) / sqrt (2 * pi)) (at 0)"
    by (simp add: example_continuous_feed_def)
  from layers out pr at d show ?thesis
    by simp
qed

end
